theory Spec2Isabelle
  imports Complex_Main "HOL-Library.Word"
begin

section \<open>Sample loading and the storage shim of thurmbox/common\_code.js\<close>

text \<open>
  A shallow embedding of \<^verbatim>\<open>src/thurmbox/common_code.js\<close>: the sample locator, the two
  sample parsers, the waveform post-processor, the load orchestrator and the
  \<^verbatim>\<open>FakeLocalStorage\<close> class.

  Conventions of the model.
  \<^item> A JavaScript number is a \<open>jsnum\<close>: a rational (the value of a finite binary64
    number), the two infinities or NaN. Every arithmetic operation rounds its exact result
    to binary64, to the nearest value with ties to even, and overflows to an infinity; a
    store into a \<^verbatim>\<open>Float32Array\<close> rounds to binary32 in the same way. The sign of zero is
    not modelled. Equality of \<open>jsnum\<close> values is structural, so \<open>NaN = NaN\<close> here; the
    operator \<^verbatim>\<open>==\<close> of the language is \<open>js_equals\<close>.
  \<^item> A JavaScript string is a list of UTF-16 code units.
  \<^item> A promise chain is run to its settled state: a stage is a function from the state of
    the world to a result (\<open>Inl\<close> a rejection, \<open>Inr\<close> a fulfilment) and the next state.
  \<^item> The configuration globals are the fields of a record passed to the functions that
    read them; the browser functions (\<^verbatim>\<open>fetch\<close>, \<^verbatim>\<open>decodeAudioData\<close>) are parameters.
\<close>

subsection \<open>Numbers\<close>

datatype jsnum = Num rat | PosInf | NegInf | NaN

text \<open>
  Rounding to a binary floating-point format of precision \<open>p\<close> with exponents from
  \<open>emin\<close> to \<open>emax\<close>: the number of binary digits of a natural number; the exponent of the
  binade of a positive rational; the powers of two; rounding to the nearest integer, ties to
  even. The rounded value is the nearest multiple of the quantum of the binade (of the
  subnormal quantum below the normal range); a result of \<open>2 ^ (emax + 1)\<close> or more is an
  overflow.
\<close>

function bit_length :: "nat \<Rightarrow> nat" where
  "bit_length n = (if n = 0 then 0 else Suc (bit_length (n div 2)))"
  by pat_completeness auto
termination
  by (relation "measure (\<lambda>n. n)") auto

declare bit_length.simps [simp del]

definition floor_log2 :: "rat \<Rightarrow> int" where
  "floor_log2 q =
     (if 1 \<le> q then int (bit_length (nat \<lfloor>q\<rfloor>)) - 1
      else - int (bit_length (nat (\<lceil>1 / q\<rceil> - 1))))"

definition pow2 :: "int \<Rightarrow> rat" where
  "pow2 k = (if 0 \<le> k then 2 ^ nat k else 1 / 2 ^ nat (- k))"

definition round_half_even :: "rat \<Rightarrow> int" where
  "round_half_even x =
     (let f = \<lfloor>x\<rfloor>; d = x - of_int f
      in if d < 1 / 2 then f else if 1 / 2 < d then f + 1 else if even f then f else f + 1)"

definition round_to :: "nat \<Rightarrow> int \<Rightarrow> int \<Rightarrow> rat \<Rightarrow> jsnum" where
  "round_to p emin emax q =
     (if q = 0 then Num 0
      else
        let e = max (floor_log2 \<bar>q\<bar>) emin;
            quantum = pow2 (e - (int p - 1));
            r = of_int (round_half_even (\<bar>q\<bar> / quantum)) * quantum
        in if pow2 (emax + 1) \<le> r then (if 0 < q then PosInf else NegInf)
           else Num (if 0 < q then r else - r))"

text \<open>Rounding to binary64, and \<^verbatim>\<open>Math.fround\<close>: the conversion of a number to binary32.\<close>

definition round64 :: "rat \<Rightarrow> jsnum" where
  "round64 q = round_to 53 (- 1022) 1023 q"

fun fround :: "jsnum \<Rightarrow> jsnum" where
  "fround (Num q) = round_to 24 (- 126) 127 q"
| "fround PosInf = PosInf"
| "fround NegInf = NegInf"
| "fround NaN = NaN"

declare fround.simps(1) [simp del]

text \<open>The operators \<^verbatim>\<open>+\<close>, \<^verbatim>\<open>-\<close> and \<^verbatim>\<open>/\<close> on numbers.\<close>

fun jsneg :: "jsnum \<Rightarrow> jsnum" where
  "jsneg (Num a) = Num (- a)"
| "jsneg PosInf = NegInf"
| "jsneg NegInf = PosInf"
| "jsneg NaN = NaN"

fun jsadd :: "jsnum \<Rightarrow> jsnum \<Rightarrow> jsnum" where
  "jsadd (Num a) (Num b) = round64 (a + b)"
| "jsadd NaN _ = NaN"
| "jsadd _ NaN = NaN"
| "jsadd PosInf NegInf = NaN"
| "jsadd NegInf PosInf = NaN"
| "jsadd PosInf _ = PosInf"
| "jsadd NegInf _ = NegInf"
| "jsadd _ PosInf = PosInf"
| "jsadd _ NegInf = NegInf"

definition jssub :: "jsnum \<Rightarrow> jsnum \<Rightarrow> jsnum" where
  "jssub a b = jsadd a (jsneg b)"

text \<open>Division; the divisor \<open>Num 0\<close> stands for \<open>+0\<close>.\<close>

fun jsdiv :: "jsnum \<Rightarrow> jsnum \<Rightarrow> jsnum" where
  "jsdiv (Num a) (Num b) =
     (if b = 0 then (if a = 0 then NaN else if 0 < a then PosInf else NegInf)
      else round64 (a / b))"
| "jsdiv NaN _ = NaN"
| "jsdiv _ NaN = NaN"
| "jsdiv (Num a) _ = Num 0"
| "jsdiv PosInf (Num b) = (if 0 \<le> b then PosInf else NegInf)"
| "jsdiv NegInf (Num b) = (if 0 \<le> b then NegInf else PosInf)"
| "jsdiv PosInf PosInf = NaN"
| "jsdiv PosInf NegInf = NaN"
| "jsdiv NegInf PosInf = NaN"
| "jsdiv NegInf NegInf = NaN"

text \<open>The operator \<^verbatim>\<open>==\<close> on numbers: NaN equals nothing, itself included.\<close>

definition js_equals :: "jsnum \<Rightarrow> jsnum \<Rightarrow> bool" where
  "js_equals a b = (a \<noteq> NaN \<and> b \<noteq> NaN \<and> a = b)"



subsection \<open>Arrays\<close>

text \<open>
  The three kinds of array that \<^verbatim>\<open>makeArrayOfSameType\<close> tells apart. A typed array holds
  numbers; an element of a plain array is a number or a hole (\<open>None\<close>), which reads as
  \<^verbatim>\<open>undefined\<close>.
\<close>

datatype jsarray =
    Float32Array "jsnum list"
  | Float64Array "jsnum list"
  | Array "jsnum option list"

fun elems :: "jsarray \<Rightarrow> jsnum option list" where
  "elems (Float32Array xs) = map Some xs"
| "elems (Float64Array xs) = map Some xs"
| "elems (Array xs) = xs"

text \<open>\<^verbatim>\<open>a.length\<close>\<close>

definition len :: "jsarray \<Rightarrow> nat" where
  "len a = length (elems a)"

text \<open>
  \<^verbatim>\<open>a[i]\<close> where a number is expected: a hole and an index out of range give
  \<^verbatim>\<open>undefined\<close>, which arithmetic converts to NaN.
\<close>

definition get_num :: "jsarray \<Rightarrow> nat \<Rightarrow> jsnum" where
  "get_num a i =
     (if i < len a then (case elems a ! i of Some v \<Rightarrow> v | None \<Rightarrow> NaN) else NaN)"

text \<open>
  \<^verbatim>\<open>a[i] = v\<close>: a typed array ignores a write out of range, a plain array grows (with
  holes when \<open>i\<close> is beyond its length). A \<^verbatim>\<open>Float32Array\<close> stores the number rounded to
  binary32; the other two kinds store it as it is.
\<close>

fun set_elem :: "jsarray \<Rightarrow> nat \<Rightarrow> jsnum \<Rightarrow> jsarray" where
  "set_elem (Float32Array xs) i v =
     Float32Array (if i < length xs then xs[i := fround v] else xs)"
| "set_elem (Float64Array xs) i v = Float64Array (if i < length xs then xs[i := v] else xs)"
| "set_elem (Array xs) i v =
     Array (if i < length xs then xs[i := Some v]
            else xs @ replicate (i - length xs) None @ [Some v])"

text \<open>\<^verbatim>\<open>makeArrayOfSameType(a, length)\<close>; \<open>None\<close> is the omitted second argument.\<close>

definition makeArrayOfSameType :: "jsarray \<Rightarrow> nat option \<Rightarrow> jsarray" where
  "makeArrayOfSameType a length_arg =
     (let n = (case length_arg of None \<Rightarrow> len a | Some k \<Rightarrow> k)
      in case a of
           Float32Array _ \<Rightarrow> Float32Array (replicate n (Num 0))
         | Float64Array _ \<Rightarrow> Float64Array (replicate n (Num 0))
         | Array _ \<Rightarrow> Array [])"

subsection \<open>Waveform post-processor\<close>

text \<open>The first loop of \<^verbatim>\<open>computeCenteredWave\<close>: \<^verbatim>\<open>sum += wave[i]\<close>, with \<^verbatim>\<open>sum\<close>
  written \<open>acc\<close>.\<close>

function sum_loop :: "jsarray \<Rightarrow> nat \<Rightarrow> jsnum \<Rightarrow> jsnum" where
  "sum_loop wave i acc =
     (if i < len wave then sum_loop wave (i + 1) (jsadd acc (get_num wave i)) else acc)"
  by pat_completeness auto
termination
  by (relation "measure (\<lambda>(wave, i, acc). len wave - i)") auto

declare sum_loop.simps [simp del]

text \<open>The second loop: \<^verbatim>\<open>result[i] = wave[i] - average\<close>.\<close>

function center_loop :: "jsarray \<Rightarrow> jsnum \<Rightarrow> nat \<Rightarrow> jsarray \<Rightarrow> jsarray" where
  "center_loop wave average i result =
     (if i < len wave
      then center_loop wave average (i + 1) (set_elem result i (jssub (get_num wave i) average))
      else result)"
  by pat_completeness auto
termination
  by (relation "measure (\<lambda>(wave, average, i, result). len wave - i)") auto

declare center_loop.simps [simp del]

definition computeCenteredWave :: "jsarray \<Rightarrow> jsarray \<Rightarrow> jsarray" where
  "computeCenteredWave wave result =
     (let acc = sum_loop wave 0 (Num 0);
          average = jsdiv acc (Num (of_nat (len wave)))
      in center_loop wave average 0 result)"

text \<open>The loop of \<^verbatim>\<open>computeIntegral\<close>.\<close>

function integral_loop :: "jsarray \<Rightarrow> nat \<Rightarrow> jsnum \<Rightarrow> jsarray \<Rightarrow> jsarray" where
  "integral_loop wave i cumulative result =
     (if i < len wave
      then (let temp = get_num wave i;
                result' = set_elem result i cumulative
            in integral_loop wave (i + 1) (jsadd cumulative temp) result')
      else result)"
  by pat_completeness auto
termination
  by (relation "measure (\<lambda>(wave, i, cumulative, result). len wave - i)") auto

declare integral_loop.simps [simp del]

definition computeIntegral :: "jsarray \<Rightarrow> jsarray \<Rightarrow> jsarray" where
  "computeIntegral wave result = integral_loop wave 0 (Num 0) result"

subsection \<open>Strings\<close>

type_synonym code_unit = "16 word"
type_synonym jsstring = "code_unit list"

text \<open>An ASCII literal as a JavaScript string.\<close>

definition js :: "string \<Rightarrow> jsstring" where
  "js s = map (\<lambda>c. of_nat (of_char c)) s"

text \<open>
  \<^verbatim>\<open>data.split(sep)\<close> for a separator of one code unit: the pieces between the
  separators, so one piece more than there are separators.
\<close>

fun split_on :: "code_unit \<Rightarrow> jsstring \<Rightarrow> jsstring list" where
  "split_on sep [] = [[]]"
| "split_on sep (c # cs) =
     (if c = sep then [] # split_on sep cs
      else (case split_on sep cs of p # ps \<Rightarrow> (c # p) # ps | [] \<Rightarrow> [[c]]))"

subsection \<open>String to number\<close>

text \<open>
  The unary \<^verbatim>\<open>+\<close> applied to a string is ECMAScript's StringToNumber: white space is
  trimmed from both ends; the empty string is 0; a signed decimal literal (with optional
  fraction and exponent), \<^verbatim>\<open>Infinity\<close> with an optional sign, and an unsigned hexadecimal,
  octal or binary integer literal have their value, rounded to binary64; anything else is
  NaN. The functions below give the exact value of a literal, as \<open>Num\<close>, and \<open>toNumber\<close>
  rounds it.
\<close>

definition isStrWhiteSpaceChar :: "code_unit \<Rightarrow> bool" where
  "isStrWhiteSpaceChar c =
     (let n = unat c
      in n = 0x9 \<or> n = 0xA \<or> n = 0xB \<or> n = 0xC \<or> n = 0xD \<or> n = 0x20 \<or> n = 0xA0
         \<or> n = 0x1680 \<or> (0x2000 \<le> n \<and> n \<le> 0x200A) \<or> n = 0x2028 \<or> n = 0x2029
         \<or> n = 0x202F \<or> n = 0x205F \<or> n = 0x3000 \<or> n = 0xFEFF)"

definition trimString :: "jsstring \<Rightarrow> jsstring" where
  "trimString s = rev (dropWhile isStrWhiteSpaceChar (rev (dropWhile isStrWhiteSpaceChar s)))"

text \<open>The value of a digit in a base up to 16, letters in either case.\<close>

definition digit_of :: "nat \<Rightarrow> code_unit \<Rightarrow> nat option" where
  "digit_of base c =
     (let n = unat c;
          v = (if 0x30 \<le> n \<and> n \<le> 0x39 then n - 0x30
               else if 0x41 \<le> n \<and> n \<le> 0x46 then n - 0x41 + 10
               else if 0x61 \<le> n \<and> n \<le> 0x66 then n - 0x61 + 10
               else 16)
      in if v < base then Some v else None)"

definition isDecimalDigit :: "code_unit \<Rightarrow> bool" where
  "isDecimalDigit c = (digit_of 10 c \<noteq> None)"

definition all_digits :: "nat \<Rightarrow> jsstring \<Rightarrow> bool" where
  "all_digits base ds = (ds \<noteq> [] \<and> list_all (\<lambda>c. digit_of base c \<noteq> None) ds)"

definition digits_value :: "nat \<Rightarrow> jsstring \<Rightarrow> nat" where
  "digits_value base ds =
     foldl (\<lambda>v c. v * base + (case digit_of base c of Some d \<Rightarrow> d | None \<Rightarrow> 0)) 0 ds"

definition integer_literal :: "nat \<Rightarrow> jsstring \<Rightarrow> jsnum option" where
  "integer_literal base ds =
     (if all_digits base ds then Some (Num (of_nat (digits_value base ds))) else None)"

text \<open>NonDecimalIntegerLiteral: \<^verbatim>\<open>0x\<close>, \<^verbatim>\<open>0o\<close> or \<^verbatim>\<open>0b\<close> and digits of that base.\<close>

definition non_decimal :: "jsstring \<Rightarrow> jsnum option" where
  "non_decimal s =
     (case s of
        z # x # ds \<Rightarrow>
          if z \<noteq> 0x30 then None
          else if x = 0x78 \<or> x = 0x58 then integer_literal 16 ds
          else if x = 0x6F \<or> x = 0x4F then integer_literal 8 ds
          else if x = 0x62 \<or> x = 0x42 then integer_literal 2 ds
          else None
      | _ \<Rightarrow> None)"

text \<open>SignedInteger and ExponentPart; the empty rest is the absent exponent.\<close>

definition signed_integer :: "jsstring \<Rightarrow> int option" where
  "signed_integer r =
     (case r of
        [] \<Rightarrow> None
      | sg # ds \<Rightarrow>
          if sg = 0x2B then (if all_digits 10 ds then Some (int (digits_value 10 ds)) else None)
          else if sg = 0x2D then (if all_digits 10 ds then Some (- int (digits_value 10 ds)) else None)
          else (if all_digits 10 r then Some (int (digits_value 10 r)) else None))"

definition exponent_part :: "jsstring \<Rightarrow> int option" where
  "exponent_part s =
     (case s of
        [] \<Rightarrow> Some 0
      | e # r \<Rightarrow> if e = 0x65 \<or> e = 0x45 then signed_integer r else None)"

definition scale10 :: "rat \<Rightarrow> int \<Rightarrow> rat" where
  "scale10 x e = (if 0 \<le> e then x * 10 ^ nat e else x / 10 ^ nat (- e))"

text \<open>StrUnsignedDecimalLiteral.\<close>

definition unsigned_decimal :: "jsstring \<Rightarrow> jsnum option" where
  "unsigned_decimal s =
     (if s = js ''Infinity'' then Some PosInf
      else
        let ip = takeWhile isDecimalDigit s;
            r1 = dropWhile isDecimalDigit s;
            dot = (case r1 of [] \<Rightarrow> False | c # _ \<Rightarrow> c = 0x2E);
            fp = (if dot then takeWhile isDecimalDigit (tl r1) else []);
            r2 = (if dot then dropWhile isDecimalDigit (tl r1) else r1)
        in if ip = [] \<and> fp = [] then None
           else (case exponent_part r2 of
                   None \<Rightarrow> None
                 | Some e \<Rightarrow>
                     Some (Num (scale10 (of_nat (digits_value 10 ip)
                                         + of_nat (digits_value 10 fp) / 10 ^ length fp) e))))"

text \<open>StrDecimalLiteral: an optional sign and an unsigned literal.\<close>

definition str_decimal :: "jsstring \<Rightarrow> jsnum option" where
  "str_decimal s =
     (case s of
        [] \<Rightarrow> None
      | c # r \<Rightarrow>
          if c = 0x2B then unsigned_decimal r
          else if c = 0x2D then map_option jsneg (unsigned_decimal r)
          else unsigned_decimal s)"

text \<open>The rounding of an exact value to a number of the language.\<close>

fun to_binary64 :: "jsnum \<Rightarrow> jsnum" where
  "to_binary64 (Num q) = round64 q"
| "to_binary64 PosInf = PosInf"
| "to_binary64 NegInf = NegInf"
| "to_binary64 NaN = NaN"

definition toNumber :: "jsstring \<Rightarrow> jsnum" where
  "toNumber s =
     (let t = trimString s
      in if t = [] then Num 0
         else (case non_decimal t of
                 Some v \<Rightarrow> to_binary64 v
               | None \<Rightarrow> (case str_decimal t of Some v \<Rightarrow> to_binary64 v | None \<Rightarrow> NaN)))"

subsection \<open>Text parser\<close>

text \<open>The loop of \<^verbatim>\<open>parseTextSample\<close>: \<^verbatim>\<open>parsed[i] = +lines[i]\<close>.\<close>

function parse_loop :: "jsstring list \<Rightarrow> nat \<Rightarrow> nat \<Rightarrow> jsarray \<Rightarrow> jsarray" where
  "parse_loop lines waveLength i parsed =
     (if i < waveLength
      then parse_loop lines waveLength (i + 1)
             (set_elem parsed i (if i < length lines then toNumber (lines ! i) else NaN))
      else parsed)"
  by pat_completeness auto
termination
  by (relation "measure (\<lambda>(lines, waveLength, i, parsed). waveLength - i)") auto

declare parse_loop.simps [simp del]

definition LF :: code_unit where
  "LF = 0x0A"

text \<open>The array \<^verbatim>\<open>parsed\<close> of \<^verbatim>\<open>parseTextSample(data)\<close> once its loop has run.\<close>

definition parsed_lines :: "jsstring \<Rightarrow> jsarray" where
  "parsed_lines data =
     (let lines = split_on LF data;
          waveLength = length lines;
          parsed = Float32Array (replicate waveLength (Num 0))
      in parse_loop lines waveLength 0 parsed)"

text \<open>
  \<^verbatim>\<open>parseTextSample(data)\<close>: the value its promise is resolved with. The executor has no
  path that rejects.
\<close>

definition parseTextSample :: "jsstring \<Rightarrow> jsarray" where
  "parseTextSample data =
     (let parsed = parsed_lines data
      in computeCenteredWave parsed (makeArrayOfSameType parsed (Some (len parsed + 1))))"

subsection \<open>Errors\<close>

text \<open>
  What a function can throw and a promise can be rejected with: \<open>LoadError name url\<close> is
  the \<^verbatim>\<open>Error\<close> made in \<^verbatim>\<open>startLoadingSampleData\<close>, the others come from the platform.
\<close>

datatype error =
    URIError
  | TypeError
  | LoadError jsstring jsstring
  | NetworkError
  | BodyError
  | EncodingError
  | IndexSizeError
  | NotFoundError
  | SecurityError

subsection \<open>Sample locator\<close>

text \<open>
  \<^verbatim>\<open>encodeURIComponent\<close>: the unreserved code units are copied; any other code point is
  encoded in UTF-8, each octet written as \<^verbatim>\<open>%XX\<close>; an unpaired surrogate throws
  \<^verbatim>\<open>URIError\<close>.
\<close>

definition isUnreserved :: "code_unit \<Rightarrow> bool" where
  "isUnreserved c =
     (let n = unat c
      in (0x41 \<le> n \<and> n \<le> 0x5A) \<or> (0x61 \<le> n \<and> n \<le> 0x7A) \<or> (0x30 \<le> n \<and> n \<le> 0x39)
         \<or> n = 0x2D \<or> n = 0x5F \<or> n = 0x2E \<or> n = 0x21 \<or> n = 0x7E \<or> n = 0x2A
         \<or> n = 0x27 \<or> n = 0x28 \<or> n = 0x29)"

definition isLeadingSurrogate :: "code_unit \<Rightarrow> bool" where
  "isLeadingSurrogate c = (0xD800 \<le> unat c \<and> unat c \<le> 0xDBFF)"

definition isTrailingSurrogate :: "code_unit \<Rightarrow> bool" where
  "isTrailingSurrogate c = (0xDC00 \<le> unat c \<and> unat c \<le> 0xDFFF)"

definition surrogate_pair :: "code_unit \<Rightarrow> code_unit \<Rightarrow> nat" where
  "surrogate_pair lead trail = (unat lead - 0xD800) * 0x400 + (unat trail - 0xDC00) + 0x10000"

definition utf8 :: "nat \<Rightarrow> nat list" where
  "utf8 cp =
     (if cp < 0x80 then [cp]
      else if cp < 0x800 then [0xC0 + cp div 0x40, 0x80 + cp mod 0x40]
      else if cp < 0x10000 then
        [0xE0 + cp div 0x1000, 0x80 + (cp div 0x40) mod 0x40, 0x80 + cp mod 0x40]
      else
        [0xF0 + cp div 0x40000, 0x80 + (cp div 0x1000) mod 0x40,
         0x80 + (cp div 0x40) mod 0x40, 0x80 + cp mod 0x40])"

definition hex_digit :: "nat \<Rightarrow> code_unit" where
  "hex_digit d = (if d < 10 then of_nat (0x30 + d) else of_nat (0x41 + (d - 10)))"

definition percent_octet :: "nat \<Rightarrow> jsstring" where
  "percent_octet b = [0x25, hex_digit (b div 16), hex_digit (b mod 16)]"

definition percent_encode :: "nat \<Rightarrow> jsstring" where
  "percent_encode cp = concat (map percent_octet (utf8 cp))"

fun encodeURIComponent :: "jsstring \<Rightarrow> error + jsstring" where
  "encodeURIComponent [] = Inr []"
| "encodeURIComponent [c] =
     (if isUnreserved c then Inr [c]
      else if isLeadingSurrogate c \<or> isTrailingSurrogate c then Inl URIError
      else Inr (percent_encode (unat c)))"
| "encodeURIComponent (c # d # ds) =
     (if isUnreserved c then
        (case encodeURIComponent (d # ds) of Inl e \<Rightarrow> Inl e | Inr r \<Rightarrow> Inr (c # r))
      else if isTrailingSurrogate c then Inl URIError
      else if isLeadingSurrogate c then
        (if isTrailingSurrogate d then
           (case encodeURIComponent ds of
              Inl e \<Rightarrow> Inl e
            | Inr r \<Rightarrow> Inr (percent_encode (surrogate_pair c d) @ r))
         else Inl URIError)
      else
        (case encodeURIComponent (d # ds) of
           Inl e \<Rightarrow> Inl e
         | Inr r \<Rightarrow> Inr (percent_encode (unat c) @ r)))"

text \<open>
  The name matchers of the folder table all have the form \<^verbatim>\<open>/^[...]/i\<close>: a character
  class anchored at the start, with the ignore-case flag. A class lists single characters
  and ranges; its members are ASCII. Without the unicode flag, ignore-case compares the
  upper-case forms of single code units and never maps a code unit of 128 or more to one
  below 128, so against ASCII members only the ASCII letters fold.
\<close>

datatype class_item = Single char | Range char char

datatype regexp = AnchoredClass "class_item list" bool

definition canonicalize :: "bool \<Rightarrow> nat \<Rightarrow> nat" where
  "canonicalize ignoreCase n = (if ignoreCase \<and> 0x61 \<le> n \<and> n \<le> 0x7A then n - 0x20 else n)"

fun item_matches :: "bool \<Rightarrow> class_item \<Rightarrow> nat \<Rightarrow> bool" where
  "item_matches ignoreCase (Single a) n =
     (canonicalize ignoreCase (of_char a) = canonicalize ignoreCase n)"
| "item_matches ignoreCase (Range lo hi) n =
     (canonicalize ignoreCase n
        \<in> set (map (canonicalize ignoreCase) [of_char lo..<Suc (of_char hi)]))"

text \<open>\<^verbatim>\<open>name.match(nameMatcher)\<close> as a truth value: whether there is a match.\<close>

fun matches :: "jsstring \<Rightarrow> regexp \<Rightarrow> bool" where
  "matches [] (AnchoredClass items ignoreCase) = False"
| "matches (c # cs) (AnchoredClass items ignoreCase) =
     list_ex (\<lambda>item. item_matches ignoreCase item (unat c)) items"

text \<open>
  The configuration. \<open>DEFAULT_FOLDER_MAPPINGS\<close> holds the entries of the \<^verbatim>\<open>Map\<close> in
  iteration order; \<open>SAMPLE_URL_TABLE\<close> is the lookup \<^verbatim>\<open>SAMPLE_URL_TABLE.get\<close>, an entry
  being the pair of a URL and a format, both strings.
\<close>

record config =
  DEFAULT_SAMPLE_URL_PREFIX :: jsstring
  DEFAULT_SAMPLE_URL_SUFFIX :: jsstring
  DEFAULT_SAMPLE_FORMAT :: jsstring
  DEFAULT_FOLDER_MAPPINGS :: "(jsstring \<times> regexp) list"
  SAMPLE_URL_TABLE :: "jsstring \<rightharpoonup> jsstring \<times> jsstring"

definition default_config :: config where
  "default_config =
     \<lparr> DEFAULT_SAMPLE_URL_PREFIX =
         js ''https://file.garden/ZMQ0Om5nmTe-x2hq/PandoraArchive%20Samples/'',
       DEFAULT_SAMPLE_URL_SUFFIX = js ''.wav'',
       DEFAULT_SAMPLE_FORMAT = js ''wav'',
       DEFAULT_FOLDER_MAPPINGS =
         [(js ''0-9%20and%20A/'', AnchoredClass [Range CHR ''0'' CHR ''9'', Single CHR ''a''] True),
          (js ''B/'', AnchoredClass [Single CHR ''b''] True),
          (js ''CD/'', AnchoredClass [Single CHR ''c'', Single CHR ''d''] True),
          (js ''EF/'', AnchoredClass [Single CHR ''e'', Single CHR ''f''] True),
          (js ''GH/'', AnchoredClass [Single CHR ''g'', Single CHR ''h''] True),
          (js ''IJKL/'',
             AnchoredClass [Single CHR ''i'', Single CHR ''j'', Single CHR ''k'', Single CHR ''l''] True),
          (js ''M/'', AnchoredClass [Single CHR ''m''] True),
          (js ''NO/'', AnchoredClass [Single CHR ''n'', Single CHR ''o''] True),
          (js ''P/'', AnchoredClass [Single CHR ''p''] True),
          (js ''QR/'', AnchoredClass [Single CHR ''q'', Single CHR ''r''] True),
          (js ''S/'', AnchoredClass [Single CHR ''s''] True),
          (js ''TUV/'', AnchoredClass [Single CHR ''t'', Single CHR ''u'', Single CHR ''v''] True),
          (js ''WXYZ/'',
             AnchoredClass [Single CHR ''w'', Single CHR ''x'', Single CHR ''y'', Single CHR ''z''] True)],
       SAMPLE_URL_TABLE = Map.empty \<rparr>"

record sample_definition =
  url :: jsstring
  format :: jsstring

text \<open>The \<^verbatim>\<open>for\<close> loop over the folder entries, left at the first match.\<close>

fun folder_loop :: "(jsstring \<times> regexp) list \<Rightarrow> jsstring \<Rightarrow> jsstring \<Rightarrow> jsstring" where
  "folder_loop [] name folderName = folderName"
| "folder_loop ((possibleFolderName, nameMatcher) # rest) name folderName =
     (if matches name nameMatcher then possibleFolderName
      else folder_loop rest name folderName)"

text \<open>
  \<^verbatim>\<open>getSampleDefinitionFromName(name)\<close>. With entries that are pairs of strings,
  \<^verbatim>\<open>url == null\<close> holds exactly when the table has no entry for the name.
\<close>

definition getSampleDefinitionFromName :: "config \<Rightarrow> jsstring \<Rightarrow> error + sample_definition" where
  "getSampleDefinitionFromName cfg name =
     (case SAMPLE_URL_TABLE cfg name of
        Some tableEntry \<Rightarrow> Inr \<lparr> url = fst tableEntry, format = snd tableEntry \<rparr>
      | None \<Rightarrow>
          (case encodeURIComponent name of
             Inl e \<Rightarrow> Inl e
           | Inr percentEncodedName \<Rightarrow>
               let folderName = folder_loop (DEFAULT_FOLDER_MAPPINGS cfg) name []
               in Inr \<lparr> url = DEFAULT_SAMPLE_URL_PREFIX cfg @ folderName @ percentEncodedName
                              @ DEFAULT_SAMPLE_URL_SUFFIX cfg,
                        format = DEFAULT_SAMPLE_FORMAT cfg \<rparr>))"

subsection \<open>The world of a load\<close>

text \<open>
  A load target is an object with a \<^verbatim>\<open>samples\<close> field, or \<^verbatim>\<open>null\<close> (\<open>None\<close>); the two
  targets are distinct objects. The value of \<^verbatim>\<open>samples\<close> is an array or \<^verbatim>\<open>undefined\<close>.
  The world also counts the audio contexts created and the calls of \<^verbatim>\<open>close()\<close>, holds
  the local flag of the current call of \<^verbatim>\<open>parseSampleWithWebAudio\<close>, and collects what
  \<^verbatim>\<open>console.error\<close> is given.
\<close>

datatype jsval = Undefined | ArrayVal jsarray

record chip_wave =
  samples :: jsval

record world =
  chipWaveRaw :: "chip_wave option"
  chipWaveIntegral :: "chip_wave option"
  console :: "error list"
  contextsCreated :: nat
  closeCalls :: nat
  closedSampleLoaderAudioContext :: bool

text \<open>
  The platform: what \<^verbatim>\<open>fetch(url)\<close> settles with, what the body readers of a response
  settle with, and what \<^verbatim>\<open>decodeAudioData\<close> settles with. An audio buffer is the list of
  its channels, each a \<^verbatim>\<open>Float32Array\<close>.
\<close>

type_synonym bytes = "8 word list"

type_synonym audio_buffer = "jsnum list list"

record response =
  ok :: bool
  body_text :: "error + jsstring"
  body_arrayBuffer :: "error + bytes"

record platform =
  fetch :: "jsstring \<Rightarrow> error + response"
  decodeAudioData :: "bytes \<Rightarrow> error + audio_buffer"

datatype body = Text jsstring | Buffer bytes

text \<open>Promises, run to their settled state.\<close>

type_synonym 'a promise = "world \<Rightarrow> (error + 'a) \<times> world"

definition resolved :: "'a \<Rightarrow> 'a promise" where
  "resolved v = (\<lambda>w. (Inr v, w))"

definition rejected :: "error \<Rightarrow> 'a promise" where
  "rejected e = (\<lambda>w. (Inl e, w))"

definition settled :: "error + 'a \<Rightarrow> 'a promise" where
  "settled r = (\<lambda>w. (r, w))"

text \<open>\<^verbatim>\<open>p.then(f)\<close> and \<^verbatim>\<open>p.catch(h)\<close>.\<close>

definition then_promise :: "'a promise \<Rightarrow> ('a \<Rightarrow> 'b promise) \<Rightarrow> 'b promise" where
  "then_promise p f = (\<lambda>w. case p w of (Inl e, w') \<Rightarrow> (Inl e, w') | (Inr v, w') \<Rightarrow> f v w')"

definition catch_promise :: "'a promise \<Rightarrow> (error \<Rightarrow> 'a promise) \<Rightarrow> 'a promise" where
  "catch_promise p h = (\<lambda>w. case p w of (Inl e, w') \<Rightarrow> h e w' | (Inr v, w') \<Rightarrow> (Inr v, w'))"

subsection \<open>Web Audio parser\<close>

text \<open>\<^verbatim>\<open>audioBuffer.getChannelData(channel)\<close>\<close>

definition getChannelData :: "audio_buffer \<Rightarrow> nat \<Rightarrow> error + jsarray" where
  "getChannelData audioBuffer channel =
     (if channel < length audioBuffer then Inr (Float32Array (audioBuffer ! channel))
      else Inl IndexSizeError)"

text \<open>
  The guarded block that both handlers of \<^verbatim>\<open>parseSampleWithWebAudio\<close> contain:
  \<^verbatim>\<open>if (!closedSampleLoaderAudioContext) { closedSampleLoaderAudioContext = true;
  sampleLoaderAudioContext.close(); }\<close>
\<close>

definition close_if_open :: "world \<Rightarrow> world" where
  "close_if_open w =
     (if \<not> closedSampleLoaderAudioContext w
      then w\<lparr> closedSampleLoaderAudioContext := True, closeCalls := closeCalls w + 1 \<rparr>
      else w)"

text \<open>The handler given to \<^verbatim>\<open>then\<close>.\<close>

definition decoded_handler :: "audio_buffer \<Rightarrow> jsval promise" where
  "decoded_handler audioBuffer w =
     (case getChannelData audioBuffer 0 of
        Inl e \<Rightarrow> (Inl e, w)
      | Inr leftChannelSamples \<Rightarrow>
          let rawSamples =
                computeCenteredWave leftChannelSamples
                  (makeArrayOfSameType leftChannelSamples (Some (len leftChannelSamples + 1)))
          in (Inr (ArrayVal rawSamples), close_if_open w))"

text \<open>The handler given to \<^verbatim>\<open>catch\<close>: it returns nothing, so the promise is fulfilled
  with \<^verbatim>\<open>undefined\<close>.\<close>

definition failed_handler :: "error \<Rightarrow> jsval promise" where
  "failed_handler e w = (Inr Undefined, close_if_open w)"

text \<open>
  \<^verbatim>\<open>parseSampleWithWebAudio(data)\<close>. \<^verbatim>\<open>decodeAudioData\<close> rejects with a \<^verbatim>\<open>TypeError\<close>
  when it is given a string.
\<close>

definition parseSampleWithWebAudio :: "platform \<Rightarrow> body \<Rightarrow> jsval promise" where
  "parseSampleWithWebAudio pf data w =
     (let w0 = w\<lparr> contextsCreated := contextsCreated w + 1,
                  closedSampleLoaderAudioContext := False \<rparr>;
          decoding = settled (case data of Buffer b \<Rightarrow> decodeAudioData pf b | Text t \<Rightarrow> Inl TypeError)
      in catch_promise (then_promise decoding decoded_handler) failed_handler w0)"

subsection \<open>Load orchestrator\<close>

text \<open>
  The first handler: the response check and the choice of the body reader. The constants
  \<^verbatim>\<open>url\<close> and \<^verbatim>\<open>format\<close> of the source are written \<open>url'\<close> and \<open>format'\<close>.
\<close>

definition response_handler :: "jsstring \<Rightarrow> jsstring \<Rightarrow> jsstring \<Rightarrow> response \<Rightarrow> body promise" where
  "response_handler name url' format' response =
     (if \<not> ok response then rejected (LoadError name url')
      else if format' = js ''txt'' then settled (map_sum id Text (body_text response))
      else settled (map_sum id Buffer (body_arrayBuffer response)))"

text \<open>
  The second handler: the choice of the parser. \<^verbatim>\<open>parseTextSample\<close> given a buffer
  throws in its executor, as a buffer has no \<^verbatim>\<open>split\<close>.
\<close>

definition parse_handler :: "platform \<Rightarrow> jsstring \<Rightarrow> body \<Rightarrow> jsval promise" where
  "parse_handler pf format' arrayBuffer =
     (if format' = js ''txt''
      then (case arrayBuffer of
              Text t \<Rightarrow> resolved (ArrayVal (parseTextSample t))
            | Buffer b \<Rightarrow> rejected TypeError)
      else parseSampleWithWebAudio pf arrayBuffer)"

text \<open>
  The third handler: the two writes. \<^verbatim>\<open>makeArrayOfSameType(parsed)\<close> reads
  \<^verbatim>\<open>parsed.length\<close>, which throws a \<^verbatim>\<open>TypeError\<close> when \<^verbatim>\<open>parsed\<close> is \<^verbatim>\<open>undefined\<close>.
\<close>

definition write_handler :: "jsval \<Rightarrow> unit promise" where
  "write_handler parsed w =
     (let w1 = (case chipWaveRaw w of
                  None \<Rightarrow> w
                | Some target \<Rightarrow> w\<lparr> chipWaveRaw := Some (target\<lparr> samples := parsed \<rparr>) \<rparr>)
      in case chipWaveIntegral w1 of
           None \<Rightarrow> (Inr (), w1)
         | Some target \<Rightarrow>
             (case parsed of
                Undefined \<Rightarrow> (Inl TypeError, w1)
              | ArrayVal a \<Rightarrow>
                  let integralData = computeIntegral a (makeArrayOfSameType a None)
                  in (Inr (),
                      w1\<lparr> chipWaveIntegral := Some (target\<lparr> samples := ArrayVal integralData \<rparr>) \<rparr>)))"

text \<open>The last handler: \<^verbatim>\<open>console.error(error)\<close>.\<close>

definition error_handler :: "error \<Rightarrow> unit promise" where
  "error_handler e w = (Inr (), w\<lparr> console := console w @ [e] \<rparr>)"

text \<open>
  The promise chain of \<^verbatim>\<open>startLoadingSampleData\<close>: from \<^verbatim>\<open>fetch(url)\<close> to the parsed
  value, then the writes and the final \<^verbatim>\<open>catch\<close>.
\<close>

definition parse_chain :: "platform \<Rightarrow> jsstring \<Rightarrow> jsstring \<Rightarrow> jsstring \<Rightarrow> jsval promise" where
  "parse_chain pf name url' format' =
     then_promise
       (then_promise (settled (fetch pf url')) (response_handler name url' format'))
       (parse_handler pf format')"

definition load_chain :: "platform \<Rightarrow> jsstring \<Rightarrow> jsstring \<Rightarrow> jsstring \<Rightarrow> unit promise" where
  "load_chain pf name url' format' =
     catch_promise (then_promise (parse_chain pf name url' format') write_handler) error_handler"

text \<open>
  \<^verbatim>\<open>startLoadingSampleData(name, chipWaveRaw, chipWaveIntegral)\<close>, the targets being those
  of the world: \<open>Inl\<close> when the call itself throws (the locator runs before the chain
  exists), otherwise the world once the chain has settled.
\<close>

definition startLoadingSampleData :: "config \<Rightarrow> platform \<Rightarrow> jsstring \<Rightarrow> world \<Rightarrow> error + world" where
  "startLoadingSampleData cfg pf name w =
     (case getSampleDefinitionFromName cfg name of
        Inl e \<Rightarrow> Inl e
      | Inr sampleDefinition \<Rightarrow>
          Inr (snd (load_chain pf name (url sampleDefinition) (format sampleDefinition) w)))"

subsection \<open>FakeLocalStorage\<close>

text \<open>
  The database behind the shim: the names of its object stores, the committed records
  of the store, and the requests issued and not yet completed. Keys and values are
  strings, on which \<^verbatim>\<open>convertToString\<close> (\<^verbatim>\<open>value + ""\<close>) changes nothing.
\<close>

datatype request = Put jsstring jsstring | Delete jsstring | Clear

record idb_database =
  objectStoreNames :: "jsstring list"
  records :: "(jsstring \<times> jsstring) list"
  requests :: "request list"

record fake_local_storage =
  databaseName :: jsstring
  storeName :: jsstring
  inMemoryData :: "jsstring \<rightharpoonup> jsstring"
  database :: "idb_database option"

datatype message =
    StoringInMemoryOnly
  | CouldNotOpen
  | CouldNotLoad
  | CouldNotSet jsstring
  | CouldNotRemove jsstring
  | CouldNotClear

definition convertToString :: "jsstring \<Rightarrow> jsstring" where
  "convertToString v = v @ []"

definition onlyInMemory :: bool where
  "onlyInMemory = False"

text \<open>\<^verbatim>\<open>new FakeLocalStorage(databaseName)\<close>\<close>

definition new_FakeLocalStorage :: "jsstring \<Rightarrow> fake_local_storage" where
  "new_FakeLocalStorage name =
     \<lparr> databaseName = name, storeName = js ''fakeLocalStorage'',
       inMemoryData = Map.empty, database = None \<rparr>"

text \<open>The in-memory half; \<open>None\<close> is \<^verbatim>\<open>null\<close>.\<close>

definition getItemInMemory :: "jsstring \<Rightarrow> fake_local_storage \<Rightarrow> jsstring option" where
  "getItemInMemory key s =
     (let k = convertToString key
      in if inMemoryData s k \<noteq> None then inMemoryData s k else None)"

definition setItemInMemory :: "jsstring \<Rightarrow> jsstring \<Rightarrow> fake_local_storage \<Rightarrow> fake_local_storage" where
  "setItemInMemory key v s =
     s\<lparr> inMemoryData := (inMemoryData s)(convertToString key \<mapsto> convertToString v) \<rparr>"

definition removeItemInMemory :: "jsstring \<Rightarrow> fake_local_storage \<Rightarrow> fake_local_storage" where
  "removeItemInMemory key s =
     s\<lparr> inMemoryData := (inMemoryData s)(convertToString key := None) \<rparr>"

definition clearInMemory :: "fake_local_storage \<Rightarrow> fake_local_storage" where
  "clearInMemory s = s\<lparr> inMemoryData := Map.empty \<rparr>"

text \<open>
  \<^verbatim>\<open>database.transaction([storeName], mode)\<close> throws \<^verbatim>\<open>NotFoundError\<close> when the database
  has no store of that name.
\<close>

definition transaction :: "idb_database \<Rightarrow> jsstring \<Rightarrow> error + unit" where
  "transaction db name = (if name \<in> set (objectStoreNames db) then Inr () else Inl NotFoundError)"

text \<open>
  The asynchronous half. Without a database the function returns at once. Otherwise it
  returns a promise whose executor opens a transaction and issues a request: the first
  component of the result is \<open>Inl\<close> when the executor throws, which rejects the promise and
  throws nothing to the caller, and \<open>Inr\<close> when the request has been issued; the function
  does not wait for the request.
\<close>

definition setItemAsync ::
  "jsstring \<Rightarrow> jsstring \<Rightarrow> fake_local_storage \<Rightarrow> (error + unit) \<times> fake_local_storage" where
  "setItemAsync key v s =
     (case database s of
        None \<Rightarrow> (Inr (), s)
      | Some db \<Rightarrow>
          (case transaction db (storeName s) of
             Inl e \<Rightarrow> (Inl e, s)
           | Inr _ \<Rightarrow>
               (Inr (),
                s\<lparr> database :=
                     Some (db\<lparr> requests :=
                                 requests db @ [Put (convertToString key) (convertToString v)] \<rparr>) \<rparr>)))"

definition removeItemAsync ::
  "jsstring \<Rightarrow> fake_local_storage \<Rightarrow> (error + unit) \<times> fake_local_storage" where
  "removeItemAsync key s =
     (case database s of
        None \<Rightarrow> (Inr (), s)
      | Some db \<Rightarrow>
          (case transaction db (storeName s) of
             Inl e \<Rightarrow> (Inl e, s)
           | Inr _ \<Rightarrow>
               (Inr (),
                s\<lparr> database :=
                     Some (db\<lparr> requests := requests db @ [Delete (convertToString key)] \<rparr>) \<rparr>)))"

definition clearAsync :: "fake_local_storage \<Rightarrow> (error + unit) \<times> fake_local_storage" where
  "clearAsync s =
     (case database s of
        None \<Rightarrow> (Inr (), s)
      | Some db \<Rightarrow>
          (case transaction db (storeName s) of
             Inl e \<Rightarrow> (Inl e, s)
           | Inr _ \<Rightarrow> (Inr (), s\<lparr> database := Some (db\<lparr> requests := requests db @ [Clear] \<rparr>) \<rparr>)))"

text \<open>
  The localStorage interface. The three writing functions drop what the asynchronous half
  returns, so a rejected promise stays unhandled and the call returns normally.
\<close>

definition getItem :: "jsstring \<Rightarrow> fake_local_storage \<Rightarrow> jsstring option" where
  "getItem key s = getItemInMemory key s"

definition setItem :: "jsstring \<Rightarrow> jsstring \<Rightarrow> fake_local_storage \<Rightarrow> fake_local_storage" where
  "setItem key v s = snd (setItemAsync key v (setItemInMemory key v s))"

definition removeItem :: "jsstring \<Rightarrow> fake_local_storage \<Rightarrow> fake_local_storage" where
  "removeItem key s = snd (removeItemAsync key (removeItemInMemory key s))"

definition clear :: "fake_local_storage \<Rightarrow> fake_local_storage" where
  "clear s = snd (clearAsync (clearInMemory s))"

text \<open>
  The completion of the oldest pending request: applied to the records when it succeeds,
  logged and dropped when it fails.
\<close>

fun apply_request :: "request \<Rightarrow> (jsstring \<times> jsstring) list \<Rightarrow> (jsstring \<times> jsstring) list" where
  "apply_request (Put k v) rs = (k, v) # filter (\<lambda>r. fst r \<noteq> k) rs"
| "apply_request (Delete k) rs = filter (\<lambda>r. fst r \<noteq> k) rs"
| "apply_request Clear rs = []"

fun failure_message :: "request \<Rightarrow> message" where
  "failure_message (Put k v) = CouldNotSet k"
| "failure_message (Delete k) = CouldNotRemove k"
| "failure_message Clear = CouldNotClear"

definition complete_request :: "bool \<Rightarrow> idb_database \<Rightarrow> idb_database \<times> message list" where
  "complete_request succeeds db =
     (case requests db of
        [] \<Rightarrow> (db, [])
      | r # rest \<Rightarrow>
          if succeeds then (db\<lparr> records := apply_request r (records db), requests := rest \<rparr>, [])
          else (db\<lparr> requests := rest \<rparr>, [failure_message r]))"

text \<open>
  How a promise ends: fulfilled, rejected, or never settled.
\<close>

datatype 'a outcome = Fulfilled 'a | Rejected error | Pending

text \<open>
  \<^verbatim>\<open>_loadAllPreviouslyStoredData()\<close>: the cursor delivers the records one by one; with
  \<open>Some n\<close> the request fails after \<open>n\<close> records, which is logged. The promise is rejected
  when its executor throws: there is no database, or \<^verbatim>\<open>transaction\<close> throws.
\<close>

definition loadAllPreviouslyStoredData ::
  "nat option \<Rightarrow> fake_local_storage \<Rightarrow> error + fake_local_storage \<times> message list" where
  "loadAllPreviouslyStoredData cursor_failure s =
     (case database s of
        None \<Rightarrow> Inl TypeError
      | Some db \<Rightarrow>
          (case transaction db (storeName s) of
             Inl e \<Rightarrow> Inl e
           | Inr _ \<Rightarrow>
               (case cursor_failure of
                  None \<Rightarrow> Inr (fold (\<lambda>(k, v). setItemInMemory k v) (records db) s, [])
                | Some n \<Rightarrow>
                    Inr (fold (\<lambda>(k, v). setItemInMemory k v) (take n (records db)) s,
                         [CouldNotLoad]))))"

text \<open>
  What \<^verbatim>\<open>indexedDB.open(name, 1)\<close> does: it throws (as it does with a \<^verbatim>\<open>SecurityError\<close>
  where the document may not use databases); or it returns a request that fails; or one
  that succeeds with a database, after \<^verbatim>\<open>onupgradeneeded\<close> when the flag is set.
\<close>

datatype open_result = OpenThrows error | OpenFailed | Opened idb_database bool

text \<open>
  \<^verbatim>\<open>_initialize()\<close>: how its promise ends, the storage, and what is logged. A throw of
  \<^verbatim>\<open>indexedDB.open\<close> is a throw of the executor, which rejects the promise. After a success
  the promise is resolved by a \<^verbatim>\<open>then\<close> on the loading promise, so it stays pending when the
  loading promise is rejected.
\<close>

definition initialize ::
  "open_result \<Rightarrow> nat option \<Rightarrow> fake_local_storage
     \<Rightarrow> unit outcome \<times> fake_local_storage \<times> message list" where
  "initialize opening cursor_failure s =
     (if onlyInMemory then (Fulfilled (), s, [StoringInMemoryOnly])
      else (case opening of
              OpenThrows e \<Rightarrow> (Rejected e, s, [])
            | OpenFailed \<Rightarrow> (Fulfilled (), s, [CouldNotOpen])
            | Opened db upgradeneeded \<Rightarrow>
                let db' = (if upgradeneeded
                           then db\<lparr> objectStoreNames := objectStoreNames db @ [storeName s] \<rparr>
                           else db);
                    s' = s\<lparr> database := Some db' \<rparr>
                in (case loadAllPreviouslyStoredData cursor_failure s' of
                      Inl e \<Rightarrow> (Pending, s', [])
                    | Inr (s'', messages) \<Rightarrow> (Fulfilled (), s'', messages))))"

text \<open>
  \<^verbatim>\<open>initializeFakeLocalStorage(databaseName)\<close>: what \<^verbatim>\<open>window.localStorage\<close> is replaced
  with, and what is logged. The replacement is made, and the returned promise resolved, in
  a \<^verbatim>\<open>then\<close> on the promise of \<^verbatim>\<open>_initialize()\<close>, which has no handler for a rejection:
  the result is \<open>None\<close> when that promise is rejected or stays pending, and then the
  returned promise is never resolved.
\<close>

definition initializeFakeLocalStorage ::
  "jsstring \<Rightarrow> open_result \<Rightarrow> nat option \<Rightarrow> fake_local_storage option \<times> message list" where
  "initializeFakeLocalStorage name opening cursor_failure =
     (case initialize opening cursor_failure (new_FakeLocalStorage name) of
        (Fulfilled _, fakeLocalStorage, messages) \<Rightarrow> (Some fakeLocalStorage, messages)
      | (Rejected e, fakeLocalStorage, messages) \<Rightarrow> (None, messages)
      | (Pending, fakeLocalStorage, messages) \<Rightarrow> (None, messages))"

text \<open>A call of the interface with what it returns, and a sequence of calls.\<close>

datatype call = GetItem jsstring | SetItem jsstring jsstring | RemoveItem jsstring | ClearAll

fun run_call :: "call \<Rightarrow> fake_local_storage \<Rightarrow> jsstring option \<times> fake_local_storage" where
  "run_call (GetItem k) s = (getItem k s, s)"
| "run_call (SetItem k v) s = (None, setItem k v s)"
| "run_call (RemoveItem k) s = (None, removeItem k s)"
| "run_call ClearAll s = (None, clear s)"

fun run_calls :: "call list \<Rightarrow> fake_local_storage \<Rightarrow> jsstring option list \<times> fake_local_storage" where
  "run_calls [] s = ([], s)"
| "run_calls (c # cs) s =
     (case run_call c s of (r, s') \<Rightarrow> (case run_calls cs s' of (rs, s'') \<Rightarrow> (r # rs, s'')))"

text \<open>The same calls on a plain map: what a store in memory alone answers.\<close>

fun mirror_call ::
  "call \<Rightarrow> (jsstring \<rightharpoonup> jsstring) \<Rightarrow> jsstring option \<times> (jsstring \<rightharpoonup> jsstring)" where
  "mirror_call (GetItem k) m = (m k, m)"
| "mirror_call (SetItem k v) m = (None, m(k \<mapsto> v))"
| "mirror_call (RemoveItem k) m = (None, m(k := None))"
| "mirror_call ClearAll m = (None, Map.empty)"

fun mirror_calls ::
  "call list \<Rightarrow> (jsstring \<rightharpoonup> jsstring) \<Rightarrow> jsstring option list \<times> (jsstring \<rightharpoonup> jsstring)" where
  "mirror_calls [] m = ([], m)"
| "mirror_calls (c # cs) m =
     (case mirror_call c m of (r, m') \<Rightarrow> (case mirror_calls cs m' of (rs, m'') \<Rightarrow> (r # rs, m'')))"

subsection \<open>Notions used in the statements\<close>

text \<open>The kind of an array, and whether every write below index \<open>n\<close> lands in it.\<close>

datatype array_kind = KFloat32 | KFloat64 | KPlain

fun kind_of :: "jsarray \<Rightarrow> array_kind" where
  "kind_of (Float32Array _) = KFloat32"
| "kind_of (Float64Array _) = KFloat64"
| "kind_of (Array _) = KPlain"

definition lands :: "jsarray \<Rightarrow> nat \<Rightarrow> bool" where
  "lands r n = (kind_of r = KPlain \<or> n \<le> len r)"

text \<open>What a store into an array of a kind makes of a number.\<close>

fun stored_as :: "array_kind \<Rightarrow> jsnum \<Rightarrow> jsnum" where
  "stored_as KFloat32 v = fround v"
| "stored_as KFloat64 v = v"
| "stored_as KPlain v = v"



text \<open>The samples of a waveform, read as numbers.\<close>

definition nums :: "jsarray \<Rightarrow> jsnum list" where
  "nums a = map (get_num a) [0..<len a]"

text \<open>The arithmetic mean of a waveform: the sum from the left, divided by the length.\<close>

definition mean :: "jsarray \<Rightarrow> jsnum" where
  "mean wave = jsdiv (foldl jsadd (Num 0) (nums wave)) (Num (of_nat (len wave)))"

text \<open>The exclusive prefix sums: element \<open>i\<close> is the sum of the first \<open>i\<close> samples.\<close>

definition exclusive_prefix_sums :: "jsnum list \<Rightarrow> jsnum list" where
  "exclusive_prefix_sums xs = map (\<lambda>i. foldl jsadd (Num 0) (take i xs)) [0..<length xs]"

fun scan :: "jsnum \<Rightarrow> jsnum list \<Rightarrow> jsnum list" where
  "scan acc [] = []"
| "scan acc (x # xs) = acc # scan (jsadd acc x) xs"

text \<open>
  \<open>center\<close> and \<open>integral\<close> as the loader calls them: on a fresh buffer of the same type,
  one element longer for the centered wave (lines 201 and 221), of the same length for the
  integral (line 180).
\<close>

definition center :: "jsarray \<Rightarrow> jsarray" where
  "center wave = computeCenteredWave wave (makeArrayOfSameType wave (Some (len wave + 1)))"

definition integral :: "jsarray \<Rightarrow> jsarray" where
  "integral wave = computeIntegral wave (makeArrayOfSameType wave None)"

text \<open>The folder of the first entry of the table whose pattern matches, or the empty string.\<close>

definition first_matching_folder :: "(jsstring \<times> regexp) list \<Rightarrow> jsstring \<Rightarrow> jsstring" where
  "first_matching_folder table name =
     (case find (\<lambda>entry. matches name (snd entry)) table of
        None \<Rightarrow> []
      | Some entry \<Rightarrow> fst entry)"

text \<open>A string without an unpaired surrogate.\<close>

fun well_formed :: "jsstring \<Rightarrow> bool" where
  "well_formed [] = True"
| "well_formed [c] = (\<not> isLeadingSurrogate c \<and> \<not> isTrailingSurrogate c)"
| "well_formed (c # d # ds) =
     (if isLeadingSurrogate c then isTrailingSurrogate d \<and> well_formed ds
      else \<not> isTrailingSurrogate c \<and> well_formed (d # ds))"

text \<open>An ASCII letter in the other case; any other code unit unchanged.\<close>

definition swap_case :: "code_unit \<Rightarrow> code_unit" where
  "swap_case c =
     (if 0x41 \<le> unat c \<and> unat c \<le> 0x5A then c + 0x20
      else if 0x61 \<le> unat c \<and> unat c \<le> 0x7A then c - 0x20
      else c)"

text \<open>The ignore-case flag of a pattern.\<close>

fun ignoreCase :: "regexp \<Rightarrow> bool" where
  "ignoreCase (AnchoredClass items flag) = flag"

text \<open>
  The world after a call of \<^verbatim>\<open>parseSampleWithWebAudio\<close> that created one context and
  closed it once.
\<close>

definition after_parse :: "world \<Rightarrow> world" where
  "after_parse w =
     w\<lparr> contextsCreated := contextsCreated w + 1, closedSampleLoaderAudioContext := True,
        closeCalls := closeCalls w + 1 \<rparr>"

subsection \<open>Example data\<close>



text \<open>
  A waveform of binary64 numbers; a waveform of binary32 numbers whose second sum,
  \<open>16777217\<close>, is not a binary32 number; one whose differences from the mean are not; and
  the waveform that the text \<^verbatim>\<open>"x\n1"\<close> is parsed to.
\<close>

definition example_wave64 :: jsarray where
  "example_wave64 = Float64Array [Num 2, Num 3, Num 5]"

definition rounding_wave :: jsarray where
  "rounding_wave = Float32Array [Num 16777216, Num 1, Num 1]"


definition nan_wave :: jsarray where
  "nan_wave = Float32Array [NaN, Num 1]"

text \<open>The text sample \<^verbatim>\<open>"1\n-1\n0\n"\<close> of the specification, and the text \<^verbatim>\<open>"2\n4"\<close>.\<close>

definition sample_text :: jsstring where
  "sample_text = js ''1\<newline>-1\<newline>0\<newline>''"

definition two_four_text :: jsstring where
  "two_four_text = js ''2\<newline>4''"

text \<open>
  The text \<^verbatim>\<open>"16777216\n1\n1\n-16777218"\<close>, whose second sum is not a binary32 number, and
  the text \<^verbatim>\<open>"x\n1"\<close>, whose first line is not a number.
\<close>

definition rounding_text :: jsstring where
  "rounding_text = js ''16777216\<newline>1\<newline>1\<newline>-16777218''"

definition nan_text :: jsstring where
  "nan_text = js ''x\<newline>1''"

text \<open>
  The default configuration with the override entry that the comment of line 45 gives,
  and with the settings for text samples that the comments of lines 8 and 18 give.
\<close>

definition override_config :: config where
  "override_config =
     default_config\<lparr> SAMPLE_URL_TABLE :=
       [js ''Hihat'' \<mapsto> (js ''https://example.com/file.wav'', js ''wav'')] \<rparr>"

definition text_config :: config where
  "text_config =
     default_config\<lparr> DEFAULT_SAMPLE_URL_SUFFIX := js ''.txt'', DEFAULT_SAMPLE_FORMAT := js ''txt'' \<rparr>"

text \<open>A world with both targets holding a placeholder.\<close>

definition placeholder :: chip_wave where
  "placeholder = \<lparr> samples = ArrayVal (Float32Array [Num 0]) \<rparr>"

definition placeholder_world :: world where
  "placeholder_world =
     \<lparr> chipWaveRaw = Some placeholder, chipWaveIntegral = Some placeholder, console = [],
       contextsCreated = 0, closeCalls = 0, closedSampleLoaderAudioContext = False \<rparr>"

text \<open>A platform that serves a text, and one whose audio decoder rejects what is fetched.\<close>

definition serving_text :: "jsstring \<Rightarrow> platform" where
  "serving_text t =
     \<lparr> fetch = (\<lambda>u. Inr \<lparr> ok = True, body_text = Inr t, body_arrayBuffer = Inr [] \<rparr>),
       decodeAudioData = (\<lambda>b. Inl EncodingError) \<rparr>"

definition decode_failing :: platform where
  "decode_failing =
     \<lparr> fetch = (\<lambda>u. Inr \<lparr> ok = True, body_text = Inr [], body_arrayBuffer = Inr [0x52, 0x49] \<rparr>),
       decodeAudioData = (\<lambda>b. Inl EncodingError) \<rparr>"

text \<open>A storage whose database is open and holds nothing yet.\<close>

definition open_storage :: fake_local_storage where
  "open_storage =
     (new_FakeLocalStorage (js ''beepboxFakeLocalStorage''))
       \<lparr> database :=
           Some \<lparr> objectStoreNames = [js ''fakeLocalStorage''], records = [], requests = [] \<rparr> \<rparr>"

section \<open>Rounding\<close>

lemma bit_length_le: "n < 2 ^ k \<Longrightarrow> bit_length n \<le> k"
proof (induction k arbitrary: n)
  case 0
  then show ?case by (simp add: bit_length.simps)
next
  case (Suc k)
  have "n div 2 < 2 ^ k"
    using Suc.prems by auto
  then have "bit_length (n div 2) \<le> k"
    by (rule Suc.IH)
  then show ?case
    by (subst bit_length.simps) simp
qed

lemma bit_length_pos: "0 < n \<Longrightarrow> 0 < bit_length n"
  by (subst bit_length.simps) simp

lemma round_half_even_of_int: "round_half_even (of_int j) = j"
  by (simp add: round_half_even_def)

lemma round_to_zero: "round_to p emin emax 0 = Num 0"
  by (simp add: round_to_def)

lemma round_to_minus: "round_to p emin emax (- q) = jsneg (round_to p emin emax q)"
  by (cases "q = 0"; cases "0 < q") (auto simp: round_to_def Let_def)

text \<open>A natural number below \<open>2 ^ p\<close> is a number of the format, and rounds to itself.\<close>

lemma round_to_of_nat:
  assumes "k < 2 ^ p" and "emin \<le> 0" and "int p \<le> emax + 1"
  shows "round_to p emin emax (of_nat k) = Num (of_nat k)"
proof (cases "k = 0")
  case True
  then show ?thesis by (simp add: round_to_zero)
next
  case False
  then have k: "0 < k" by simp
  let ?q = "of_nat k :: rat"
  have q1: "1 \<le> ?q" using k by simp
  have b: "0 < bit_length k" "bit_length k \<le> p"
    using k assms(1) by (simp_all add: bit_length_pos bit_length_le)
  define d where "d = p - bit_length k"
  have aq: "\<bar>?q\<bar> = ?q" by simp
  have fl: "floor_log2 ?q = int (bit_length k) - 1"
    using q1 by (simp add: floor_log2_def)
  have e: "max (floor_log2 ?q) emin = int (bit_length k) - 1"
    using b(1) assms(2) by (simp add: fl)
  have "int (bit_length k) - 1 - (int p - 1) = - int d"
    using b(2) by (simp add: d_def)
  then have quantum: "pow2 (max (floor_log2 ?q) emin - (int p - 1)) = 1 / 2 ^ d"
    by (simp add: e pow2_def)
  have "?q / (1 / 2 ^ d) = of_int (int (k * 2 ^ d))"
    by simp
  then have m: "round_half_even (?q / (1 / 2 ^ d)) = int (k * 2 ^ d)"
    by (simp only: round_half_even_of_int)
  have r: "of_int (int (k * 2 ^ d)) * (1 / 2 ^ d) = ?q"
    by simp
  have "?q < 2 ^ p"
    using assms(1) by (metis of_nat_less_iff of_nat_numeral of_nat_power)
  also have "(2::rat) ^ p \<le> pow2 (emax + 1)"
  proof -
    have "0 \<le> emax + 1" and "p \<le> nat (emax + 1)"
      using assms(3) by simp_all
    then show ?thesis
      by (simp add: pow2_def power_increasing)
  qed
  finally have no: "\<not> pow2 (emax + 1) \<le> ?q"
    by simp
  have "round_to p emin emax ?q =
      (if pow2 (emax + 1) \<le> of_int (int (k * 2 ^ d)) * (1 / 2 ^ d) then PosInf
       else Num (of_int (int (k * 2 ^ d)) * (1 / 2 ^ d)))"
    using k unfolding round_to_def Let_def aq quantum m by simp
  then show ?thesis
    using no by (simp only: r if_False)
qed

lemma round_to_of_int:
  assumes "\<bar>k\<bar> < 2 ^ p" and "emin \<le> 0" and "int p \<le> emax + 1"
  shows "round_to p emin emax (of_int k) = Num (of_int k)"
proof (cases "0 \<le> k")
  case True
  then have "nat k < 2 ^ p"
    using assms(1) by (simp add: nat_less_iff)
  from round_to_of_nat [OF this assms(2,3)] True show ?thesis
    by simp
next
  case False
  then have "nat (- k) < 2 ^ p"
    using assms(1) by (simp add: nat_less_iff)
  from round_to_of_nat [OF this assms(2,3)] False
  have "round_to p emin emax (of_int (- k)) = Num (of_int (- k))"
    by simp
  then show ?thesis
    using round_to_minus [of p emin emax "of_int (- k)"] by simp
qed

lemma round64_of_int: "\<bar>k\<bar> < 2 ^ 53 \<Longrightarrow> round64 (of_int k) = Num (of_int k)"
  unfolding round64_def by (rule round_to_of_int) simp_all

lemma fround_of_int: "\<bar>k\<bar> < 2 ^ 24 \<Longrightarrow> fround (Num (of_int k)) = Num (of_int k)"
  by (simp add: round_to_of_int fround.simps(1))

text \<open>The integers of the examples.\<close>

lemma round64_small:
  "round64 0 = Num 0" "round64 1 = Num 1" "round64 (- 1) = Num (- 1)"
  "numeral w < (2 ^ 53 :: int) \<Longrightarrow> round64 (numeral w) = Num (numeral w)"
  "numeral w < (2 ^ 53 :: int) \<Longrightarrow> round64 (- numeral w) = Num (- numeral w)"
  using round64_of_int [of 0] round64_of_int [of 1] round64_of_int [of "- 1"]
    round64_of_int [of "numeral w"] round64_of_int [of "- numeral w"]
  by simp_all

lemma fround_small:
  "fround (Num 0) = Num 0" "fround (Num 1) = Num 1" "fround (Num (- 1)) = Num (- 1)"
  "numeral w < (2 ^ 24 :: int) \<Longrightarrow> fround (Num (numeral w)) = Num (numeral w)"
  "numeral w < (2 ^ 24 :: int) \<Longrightarrow> fround (Num (- numeral w)) = Num (- numeral w)"
  using fround_of_int [of 0] fround_of_int [of 1] fround_of_int [of "- 1"]
    fround_of_int [of "numeral w"] fround_of_int [of "- numeral w"]
  by simp_all

text \<open>Evaluation of a rounding that is not exact.\<close>

lemma floor_rat_numeral: "\<lfloor>numeral a / numeral b :: rat\<rfloor> = numeral a div numeral b"
  using floor_divide_of_int_eq [of "numeral a" "numeral b", where ?'a = rat] by simp

lemmas round_eval = round_to_def floor_log2_def pow2_def round_half_even_def Let_def
  bit_length.simps floor_rat_numeral fround.simps(1)

lemma fround_16777217: "fround (Num 16777217) = Num 16777216"
  by (simp add: round_eval)


lemma fround_two_to_24:
  "fround (Num 16777216) = Num 16777216" "fround (Num (- 16777216)) = Num (- 16777216)"
  "fround (Num 16777218) = Num 16777218" "fround (Num (- 16777218)) = Num (- 16777218)"
  by (simp_all add: round_eval)

section \<open>Arrays and the iteration over them\<close>

lemma jsarray_eqI: "kind_of a = kind_of b \<Longrightarrow> elems a = elems b \<Longrightarrow> a = b"
  by (cases a; cases b) (auto dest: map_injective simp: inj_on_def)

lemma kind_of_set_elem: "kind_of (set_elem r i v) = kind_of r"
  by (cases r) auto

lemma elems_set_elem:
  "i \<le> len r \<Longrightarrow> lands r (i + 1) \<Longrightarrow>
   elems (set_elem r i v) =
     take i (elems r) @ [Some (stored_as (kind_of r) v)] @ drop (i + 1) (elems r)"
  by (cases r) (auto simp: len_def lands_def upd_conv_take_nth_drop map_update take_map drop_map)

lemma len_set_elem:
  "i \<le> len r \<Longrightarrow> lands r (i + 1) \<Longrightarrow> len (set_elem r i v) = max (len r) (i + 1)"
  by (cases r) (auto simp: len_def lands_def)

lemma lands_set_elem: "i \<le> len r \<Longrightarrow> lands r n \<Longrightarrow> lands (set_elem r i v) n"
  by (cases r) (auto simp: len_def lands_def)

lemma drop_splice:
  assumes "i < n" "i \<le> length E"
  shows "drop n (take i E @ [x] @ drop (i + 1) E) = drop n E"
proof -
  from assms(1) obtain k where k: "n = Suc (i + k)"
    using less_imp_Suc_add by blast
  show ?thesis
    using assms(2) by (simp add: k min_absorb2 add.commute)
qed

lemma take_splice:
  assumes "i \<le> length E"
  shows "take (i + 1) (take i E @ [x] @ drop (i + 1) E) = take i E @ [x]"
  using assms by (simp add: min_absorb2)

text \<open>One write of a loop that fills a buffer from the left.\<close>

lemma write_step:
  assumes "i \<le> len r" "i < n" "lands r n"
  shows "i + 1 \<le> len (set_elem r i v)"
    and "lands (set_elem r i v) n"
    and "take (i + 1) (elems (set_elem r i v)) = take i (elems r) @ [Some (stored_as (kind_of r) v)]"
    and "drop n (elems (set_elem r i v)) = drop n (elems r)"
proof -
  have l: "lands r (i + 1)"
    using assms by (auto simp: lands_def)
  have e: "elems (set_elem r i v) =
      take i (elems r) @ [Some (stored_as (kind_of r) v)] @ drop (i + 1) (elems r)"
    using assms(1) l by (rule elems_set_elem)
  show "i + 1 \<le> len (set_elem r i v)"
    using assms(1) l by (simp add: len_set_elem)
  show "lands (set_elem r i v) n"
    using assms(1,3) by (rule lands_set_elem)
  show "take (i + 1) (elems (set_elem r i v)) = take i (elems r) @ [Some (stored_as (kind_of r) v)]"
    unfolding e using assms(1) by (intro take_splice) (simp add: len_def)
  show "drop n (elems (set_elem r i v)) = drop n (elems r)"
    unfolding e using assms(1,2) by (intro drop_splice) (simp_all add: len_def)
qed

lemma sum_loop_foldl:
  "sum_loop wave i acc = foldl jsadd acc (map (get_num wave) [i..<len wave])"
proof (induction wave i acc rule: sum_loop.induct)
  case (1 wave i acc)
  show ?case
  proof (cases "i < len wave")
    case True
    with "1" show ?thesis by (subst sum_loop.simps) (simp add: upt_conv_Cons)
  next
    case False
    then show ?thesis by (subst sum_loop.simps) simp
  qed
qed

lemma elems_center_loop:
  "i \<le> len r \<Longrightarrow> i \<le> len wave \<Longrightarrow> lands r (len wave) \<Longrightarrow>
   elems (center_loop wave average i r) =
     take i (elems r)
       @ map (\<lambda>j. Some (stored_as (kind_of r) (jssub (get_num wave j) average))) [i..<len wave]
       @ drop (len wave) (elems r)"
proof (induction wave average i r rule: center_loop.induct)
  case (1 wave average i result)
  show ?case
  proof (cases "i < len wave")
    case True
    let ?r = "set_elem result i (jssub (get_num wave i) average)"
    note w = write_step [OF "1.prems"(1) True "1.prems"(3), of "jssub (get_num wave i) average"]
    have "elems (center_loop wave average (i + 1) ?r) =
       take (i + 1) (elems ?r)
         @ map (\<lambda>j. Some (stored_as (kind_of result) (jssub (get_num wave j) average)))
             [i + 1..<len wave]
         @ drop (len wave) (elems ?r)"
      using "1.IH" [OF True w(1) _ w(2)] True by (simp add: kind_of_set_elem)
    then show ?thesis
      using True w(3,4) by (subst center_loop.simps) (simp add: upt_conv_Cons)
  next
    case False
    with "1.prems" show ?thesis by (subst center_loop.simps) simp
  qed
qed

lemma kind_of_center_loop: "kind_of (center_loop wave average i r) = kind_of r"
proof (induction wave average i r rule: center_loop.induct)
  case (1 wave average i result)
  then show ?case
    by (subst center_loop.simps) (simp add: kind_of_set_elem)
qed

lemma elems_integral_loop:
  "i \<le> len r \<Longrightarrow> i \<le> len wave \<Longrightarrow> lands r (len wave) \<Longrightarrow>
   elems (integral_loop wave i cumulative r) =
     take i (elems r)
       @ map (\<lambda>v. Some (stored_as (kind_of r) v))
           (scan cumulative (map (get_num wave) [i..<len wave]))
       @ drop (len wave) (elems r)"
proof (induction wave i cumulative r rule: integral_loop.induct)
  case (1 wave i cumulative result)
  show ?case
  proof (cases "i < len wave")
    case True
    let ?r = "set_elem result i cumulative"
    let ?c = "jsadd cumulative (get_num wave i)"
    note w = write_step [OF "1.prems"(1) True "1.prems"(3), of cumulative]
    have "elems (integral_loop wave (i + 1) ?c ?r) =
       take (i + 1) (elems ?r)
         @ map (\<lambda>v. Some (stored_as (kind_of result) v))
             (scan ?c (map (get_num wave) [i + 1..<len wave]))
         @ drop (len wave) (elems ?r)"
      using "1.IH" [OF True refl refl w(1) _ w(2)] True by (simp add: kind_of_set_elem)
    then show ?thesis
      using True w(3,4) by (subst integral_loop.simps) (simp add: upt_conv_Cons Let_def)
  next
    case False
    with "1.prems" show ?thesis by (subst integral_loop.simps) simp
  qed
qed

lemma kind_of_integral_loop: "kind_of (integral_loop wave i cumulative r) = kind_of r"
proof (induction wave i cumulative r rule: integral_loop.induct)
  case (1 wave i cumulative result)
  then show ?case
    by (subst integral_loop.simps) (simp add: kind_of_set_elem Let_def)
qed

lemma elems_parse_loop:
  "i \<le> len r \<Longrightarrow> i \<le> n \<Longrightarrow> n \<le> length lines \<Longrightarrow> lands r n \<Longrightarrow>
   elems (parse_loop lines n i r) =
     take i (elems r)
       @ map (\<lambda>j. Some (stored_as (kind_of r) (toNumber (lines ! j)))) [i..<n]
       @ drop n (elems r)"
proof (induction lines n i r rule: parse_loop.induct)
  case (1 lines n i parsed)
  show ?case
  proof (cases "i < n")
    case True
    let ?v = "if i < length lines then toNumber (lines ! i) else NaN"
    let ?r = "set_elem parsed i ?v"
    note w = write_step [OF "1.prems"(1) True "1.prems"(4), of ?v]
    have "elems (parse_loop lines n (i + 1) ?r) =
       take (i + 1) (elems ?r)
         @ map (\<lambda>j. Some (stored_as (kind_of parsed) (toNumber (lines ! j)))) [i + 1..<n]
         @ drop n (elems ?r)"
      using "1.IH" [OF True w(1) _ "1.prems"(3) w(2)] True by (simp add: kind_of_set_elem)
    then show ?thesis
      using True w(3,4) "1.prems"(3) by (subst parse_loop.simps) (simp add: upt_conv_Cons)
  next
    case False
    with "1.prems" show ?thesis by (subst parse_loop.simps) simp
  qed
qed

lemma kind_of_parse_loop: "kind_of (parse_loop lines n i r) = kind_of r"
proof (induction lines n i r rule: parse_loop.induct)
  case (1 lines n i parsed)
  then show ?case
    by (subst parse_loop.simps) (simp add: kind_of_set_elem)
qed

section \<open>The post-processor in closed form\<close>

lemma scan_length: "length (scan acc xs) = length xs"
  by (induction xs arbitrary: acc) auto

lemma scan_nth: "i < length xs \<Longrightarrow> scan acc xs ! i = foldl jsadd acc (take i xs)"
proof (induction xs arbitrary: acc i)
  case Nil
  then show ?case by simp
next
  case (Cons x xs)
  then show ?case by (cases i) auto
qed

lemma scan_prefix_sums: "scan (Num 0) xs = exclusive_prefix_sums xs"
  by (rule nth_equalityI) (simp_all add: scan_length scan_nth exclusive_prefix_sums_def)

lemma len_nums: "length (nums a) = len a"
  by (simp add: nums_def)

lemma nums_nth: "i < len a \<Longrightarrow> nums a ! i = get_num a i"
  by (simp add: nums_def)

lemma nums_typed:
  "nums (Float32Array xs) = xs" "nums (Float64Array xs) = xs"
  by (rule nth_equalityI; simp add: nums_def len_def get_num_def)+

lemma nums_of_elems: "elems a = map Some xs \<Longrightarrow> nums a = xs"
  by (rule nth_equalityI) (simp_all add: nums_def len_def get_num_def)

lemma elems_fresh:
  "elems (makeArrayOfSameType a (Some n)) =
     (if kind_of a = KPlain then [] else replicate n (Some (Num 0)))"
  "elems (makeArrayOfSameType a None) =
     (if kind_of a = KPlain then [] else replicate (len a) (Some (Num 0)))"
  "kind_of (makeArrayOfSameType a k) = kind_of a"
  by (cases a; simp add: makeArrayOfSameType_def)+

lemma lands_fresh:
  "n \<le> m \<Longrightarrow> lands (makeArrayOfSameType a (Some m)) n"
  "lands (makeArrayOfSameType a None) (len a)"
  by (cases a; simp add: makeArrayOfSameType_def lands_def len_def)+

lemma mean_sum_loop: "jsdiv (sum_loop wave 0 (Num 0)) (Num (of_nat (len wave))) = mean wave"
  by (simp add: sum_loop_foldl mean_def nums_def)

lemma elems_computeCenteredWave:
  assumes "lands r (len wave)"
  shows "elems (computeCenteredWave wave r) =
     map (\<lambda>j. Some (stored_as (kind_of r) (jssub (get_num wave j) (mean wave)))) [0..<len wave]
       @ drop (len wave) (elems r)"
  using elems_center_loop [of 0 r wave "mean wave"] assms
  by (simp add: computeCenteredWave_def mean_sum_loop)

lemma elems_computeIntegral:
  assumes "lands r (len wave)"
  shows "elems (computeIntegral wave r) =
     map (\<lambda>v. Some (stored_as (kind_of r) v)) (exclusive_prefix_sums (nums wave))
       @ drop (len wave) (elems r)"
  using elems_integral_loop [of 0 r wave "Num 0"] assms
  by (simp add: computeIntegral_def scan_prefix_sums nums_def)

lemma elems_center:
  "elems (center wave) =
     map (\<lambda>j. Some (stored_as (kind_of wave) (jssub (get_num wave j) (mean wave)))) [0..<len wave]
       @ (if kind_of wave = KPlain then [] else [Some (Num 0)])"
proof -
  have "drop n (replicate (n + 1) x) = [x]" for n and x :: "jsnum option"
    by (simp only: drop_replicate) simp
  then show ?thesis
    by (simp add: center_def elems_computeCenteredWave lands_fresh elems_fresh del: replicate_Suc)
qed

lemma elems_integral:
  "elems (integral wave) =
     map (\<lambda>v. Some (stored_as (kind_of wave) v)) (exclusive_prefix_sums (nums wave))"
  by (simp add: integral_def elems_computeIntegral lands_fresh elems_fresh)

lemma kind_of_center: "kind_of (center wave) = kind_of wave"
  by (simp add: center_def computeCenteredWave_def kind_of_center_loop elems_fresh)

lemma kind_of_integral: "kind_of (integral wave) = kind_of wave"
  by (simp add: integral_def computeIntegral_def kind_of_integral_loop elems_fresh)

lemma len_integral: "len (integral wave) = len wave"
  by (simp add: len_def elems_integral exclusive_prefix_sums_def nums_def)

lemma nums_integral:
  "nums (integral wave) = map (stored_as (kind_of wave)) (exclusive_prefix_sums (nums wave))"
  by (rule nums_of_elems) (simp add: elems_integral)

lemma get_num_integral:
  "i < len wave \<Longrightarrow>
   get_num (integral wave) i = stored_as (kind_of wave) (foldl jsadd (Num 0) (take i (nums wave)))"
  by (simp add: get_num_def len_integral) (simp add: elems_integral exclusive_prefix_sums_def len_nums)

lemma center_Float32Array:
  "center (Float32Array xs) =
     Float32Array (map (\<lambda>x. fround (jssub x (mean (Float32Array xs)))) xs @ [Num 0])"
proof (rule jsarray_eqI)
  show "kind_of (center (Float32Array xs)) =
      kind_of (Float32Array (map (\<lambda>x. fround (jssub x (mean (Float32Array xs)))) xs @ [Num 0]))"
    by (simp add: kind_of_center)
  have "map (\<lambda>j. Some (fround (jssub (get_num (Float32Array xs) j) m))) [0..<length xs]
      = map Some (map (\<lambda>x. fround (jssub x m)) xs)" for m
    by (rule nth_equalityI) (simp_all add: get_num_def len_def)
  then show "elems (center (Float32Array xs)) =
      elems (Float32Array (map (\<lambda>x. fround (jssub x (mean (Float32Array xs)))) xs @ [Num 0]))"
    by (simp add: elems_center len_def)
qed

lemma integral_Float32Array:
  "integral (Float32Array xs) = Float32Array (map fround (exclusive_prefix_sums xs))"
  by (rule jsarray_eqI) (simp_all add: kind_of_integral elems_integral nums_typed)

lemma integral_Float64Array:
  "integral (Float64Array xs) = Float64Array (exclusive_prefix_sums xs)"
  by (rule jsarray_eqI) (simp_all add: kind_of_integral elems_integral nums_typed)

lemma mean_Float32Array:
  "mean (Float32Array xs) = jsdiv (foldl jsadd (Num 0) xs) (Num (of_nat (length xs)))"
  by (simp add: mean_def nums_typed len_def)

text \<open>Where a store keeps the number as it is, the integral obeys the recurrence.\<close>

lemma get_num_integral_Suc:
  assumes "Suc j < len wave" and "kind_of wave \<noteq> KFloat32"
  shows "get_num (integral wave) (Suc j) = jsadd (get_num (integral wave) j) (get_num wave j)"
proof -
  have s: "stored_as (kind_of wave) v = v" for v
    using assms(2) by (cases "kind_of wave") simp_all
  have "take (Suc j) (nums wave) = take j (nums wave) @ [get_num wave j]"
    using assms(1) by (simp add: take_Suc_conv_app_nth len_nums nums_nth)
  then show ?thesis
    using assms(1) by (simp add: get_num_integral s)
qed

lemma write_handler_array:
  assumes "chipWaveRaw w = Some raw" "chipWaveIntegral w = Some itg"
  shows "write_handler (ArrayVal a) w =
     (Inr (), w\<lparr> chipWaveRaw := Some (raw\<lparr> samples := ArrayVal a \<rparr>),
                 chipWaveIntegral := Some (itg\<lparr> samples := ArrayVal (integral a) \<rparr>) \<rparr>)"
  using assms by (simp add: write_handler_def integral_def)

section \<open>The claims about the post-processor\<close>

lemma stored_as_zero: "stored_as k (Num 0) = Num 0"
  by (cases k) (simp_all add: round_to_zero fround.simps(1))

lemma stored_as_kept: "k \<noteq> KFloat32 \<Longrightarrow> stored_as k v = v"
  by (cases k) simp_all

lemma integral_rounding_wave:
  "integral rounding_wave = Float32Array [Num 0, Num 16777216, Num 16777216]"
  by (simp add: rounding_wave_def integral_Float32Array exclusive_prefix_sums_def
      round64_small fround_small fround_two_to_24 fround_16777217)

text \<open>
  C7, as the code has it. For every waveform, \<open>integral wave\<close> has the length of the
  waveform. For a waveform that is not empty its element 0 is 0. For every index \<open>i\<close> below
  the length, its element \<open>i\<close> is the sum of the first \<open>i\<close> samples, added from the left in
  binary64 and converted to the element type of the array, which rounds it to binary32 in a
  \<^verbatim>\<open>Float32Array\<close>. In a \<^verbatim>\<open>Float64Array\<close> and in a plain array, element \<open>i\<close> for \<open>0 < i\<close>
  therefore equals (\<^verbatim>\<open>==\<close>) element \<open>i - 1\<close> plus \<open>wave[i - 1]\<close>, unless it is NaN. When the
  loader writes a parsed waveform to both targets, the raw target receives the waveform and
  the integral target an array of the same length.
\<close>

theorem integral_is_rounded_prefix_sum:
  "len (integral wave) = len wave
   \<and> (0 < len wave \<longrightarrow> js_equals (get_num (integral wave) 0) (Num 0))
   \<and> (i < len wave \<longrightarrow>
        get_num (integral wave) i
          = stored_as (kind_of wave) (foldl jsadd (Num 0) (take i (nums wave))))
   \<and> (kind_of wave \<noteq> KFloat32 \<and> 0 < i \<and> i < len wave \<and> get_num (integral wave) i \<noteq> NaN \<longrightarrow>
        js_equals (get_num (integral wave) i)
          (jsadd (get_num (integral wave) (i - 1)) (get_num wave (i - 1))))
   \<and> (chipWaveRaw w = Some raw \<and> chipWaveIntegral w = Some itg \<longrightarrow>
        (\<exists>b. map_option samples (chipWaveRaw (snd (write_handler (ArrayVal wave) w)))
                = Some (ArrayVal wave)
           \<and> map_option samples (chipWaveIntegral (snd (write_handler (ArrayVal wave) w)))
                = Some (ArrayVal b)
           \<and> len b = len wave))"
proof (intro conjI impI)
  show "len (integral wave) = len wave"
    by (rule len_integral)
  show "js_equals (get_num (integral wave) 0) (Num 0)" if "0 < len wave"
    using that by (simp add: get_num_integral stored_as_zero js_equals_def)
  show "get_num (integral wave) i
      = stored_as (kind_of wave) (foldl jsadd (Num 0) (take i (nums wave)))"
    if "i < len wave"
    using that by (rule get_num_integral)
  show "js_equals (get_num (integral wave) i)
      (jsadd (get_num (integral wave) (i - 1)) (get_num wave (i - 1)))"
    if h: "kind_of wave \<noteq> KFloat32 \<and> 0 < i \<and> i < len wave \<and> get_num (integral wave) i \<noteq> NaN"
  proof -
    from h obtain j where j: "i = Suc j" by (cases i) auto
    with h have "get_num (integral wave) i
        = jsadd (get_num (integral wave) (i - 1)) (get_num wave (i - 1))"
      by (simp add: get_num_integral_Suc)
    with h show ?thesis
      by (simp add: js_equals_def)
  qed
  show "\<exists>b. map_option samples (chipWaveRaw (snd (write_handler (ArrayVal wave) w)))
                = Some (ArrayVal wave)
           \<and> map_option samples (chipWaveIntegral (snd (write_handler (ArrayVal wave) w)))
                = Some (ArrayVal b)
           \<and> len b = len wave"
    if "chipWaveRaw w = Some raw \<and> chipWaveIntegral w = Some itg"
    using that by (simp add: write_handler_array len_integral)
qed

theorem integral_is_rounded_prefix_sum_witness:
  "0 < len example_wave64
   \<and> 2 < len example_wave64
   \<and> (kind_of example_wave64 \<noteq> KFloat32 \<and> (0::nat) < 2 \<and> 2 < len example_wave64
        \<and> get_num (integral example_wave64) 2 \<noteq> NaN)
   \<and> (chipWaveRaw placeholder_world = Some placeholder
        \<and> chipWaveIntegral placeholder_world = Some placeholder)
   \<and> integral example_wave64 = Float64Array [Num 0, Num 2, Num 5]
   \<and> len (integral example_wave64) = len example_wave64
   \<and> js_equals (get_num (integral example_wave64) 0) (Num 0)
   \<and> js_equals (get_num (integral example_wave64) 2)
        (jsadd (get_num (integral example_wave64) (2 - 1)) (get_num example_wave64 (2 - 1)))
   \<and> (\<exists>b. map_option samples
              (chipWaveIntegral (snd (write_handler (ArrayVal example_wave64) placeholder_world)))
            = Some (ArrayVal b)
          \<and> len b = len example_wave64)"
proof -
  have v: "integral example_wave64 = Float64Array [Num 0, Num 2, Num 5]"
    by (simp add: example_wave64_def integral_Float64Array exclusive_prefix_sums_def
        round64_small)
  have h1: "0 < len example_wave64" and h2: "2 < len example_wave64"
    by (simp_all add: example_wave64_def len_def)
  have h3: "kind_of example_wave64 \<noteq> KFloat32 \<and> (0::nat) < 2 \<and> 2 < len example_wave64
      \<and> get_num (integral example_wave64) 2 \<noteq> NaN"
    using h2 by (simp add: v get_num_def len_def) (simp add: example_wave64_def)
  have h4: "chipWaveRaw placeholder_world = Some placeholder
      \<and> chipWaveIntegral placeholder_world = Some placeholder"
    by (simp add: placeholder_world_def)
  show ?thesis
    using integral_is_rounded_prefix_sum
      [of example_wave64 2 placeholder_world placeholder placeholder] h1 h2 h3 h4 v
    by blast
qed

text \<open>
  C7 as stated fails on a \<^verbatim>\<open>Float32Array\<close>, the kind of array that the loader integrates.
  For the waveform \<open>[16777216, 1, 1]\<close> the integral is \<open>[0, 16777216, 16777216]\<close>: the sum
  \<open>16777217\<close> is rounded to binary32 when it is stored, so element 2 is not element 1 plus
  \<open>wave[1]\<close>. And the integral of the empty waveform has no element 0.
\<close>

theorem integral_recurrence_counterexample:
  "integral rounding_wave = Float32Array [Num 0, Num 16777216, Num 16777216]
   \<and> jsadd (get_num (integral rounding_wave) 1) (get_num rounding_wave 1) = Num 16777217
   \<and> \<not> js_equals (get_num (integral rounding_wave) 2)
          (jsadd (get_num (integral rounding_wave) 1) (get_num rounding_wave 1))
   \<and> \<not> js_equals (get_num (integral (Float32Array [])) 0) (Num 0)"
proof -
  have r: "get_num rounding_wave 1 = Num 1"
    by (simp add: rounding_wave_def get_num_def len_def)
  have a: "jsadd (get_num (integral rounding_wave) 1) (get_num rounding_wave 1) = Num 16777217"
    unfolding r by (simp add: integral_rounding_wave get_num_def len_def round64_small)
  have b: "get_num (integral rounding_wave) 2 = Num 16777216"
    by (simp add: integral_rounding_wave get_num_def len_def)
  have c: "get_num (integral (Float32Array [])) 0 = NaN"
    by (simp add: get_num_def len_integral) (simp add: len_def)
  show ?thesis
    unfolding js_equals_def a b c using integral_rounding_wave by simp
qed














section \<open>The text parser\<close>

lemma split_on_nonempty: "split_on sep s \<noteq> []"
  by (induction s) (auto split: list.splits)

lemma length_split_on: "length (split_on sep s) = count_list s sep + 1"
proof (induction s)
  case Nil
  then show ?case by simp
next
  case (Cons c cs)
  then show ?case
    using split_on_nonempty [of sep cs] by (auto split: list.splits)
qed

lemma split_on_snoc: "split_on sep (s @ [sep]) = split_on sep s @ [[]]"
proof (induction s)
  case Nil
  then show ?case by simp
next
  case (Cons c cs)
  then show ?case
    using split_on_nonempty [of sep cs] by (auto split: list.splits)
qed

lemma parsed_lines_closed:
  "parsed_lines data = Float32Array (map (\<lambda>l. fround (toNumber l)) (split_on LF data))"
proof (rule jsarray_eqI)
  let ?ls = "split_on LF data"
  let ?z = "Float32Array (replicate (length ?ls) (Num 0))"
  show "kind_of (parsed_lines data)
      = kind_of (Float32Array (map (\<lambda>l. fround (toNumber l)) ?ls))"
    by (simp add: parsed_lines_def kind_of_parse_loop Let_def)
  have "elems (parse_loop ?ls (length ?ls) 0 ?z) =
      take 0 (elems ?z)
        @ map (\<lambda>j. Some (stored_as (kind_of ?z) (toNumber (?ls ! j)))) [0..<length ?ls]
        @ drop (length ?ls) (elems ?z)"
    by (rule elems_parse_loop) (simp_all add: lands_def len_def)
  also have "\<dots> = map Some (map (\<lambda>l. fround (toNumber l)) ?ls)"
    by (rule nth_equalityI) simp_all
  finally show "elems (parsed_lines data)
      = elems (Float32Array (map (\<lambda>l. fround (toNumber l)) ?ls))"
    by (simp add: parsed_lines_def Let_def)
qed

lemma parseTextSample_closed:
  "parseTextSample data
     = center (Float32Array (map (\<lambda>l. fround (toNumber l)) (split_on LF data)))"
  by (simp add: parseTextSample_def center_def parsed_lines_closed Let_def)

lemma toNumber_empty: "toNumber [] = Num 0"
  by (simp add: toNumber_def trimString_def)

lemma sample_text_lines: "split_on LF sample_text = [js ''1'', js ''-1'', js ''0'', []]"
  by (simp add: sample_text_def js_def LF_def)

lemmas toNumber_eval = js_def toNumber_def trimString_def isStrWhiteSpaceChar_def
  non_decimal_def str_decimal_def unsigned_decimal_def isDecimalDigit_def digit_of_def
  exponent_part_def scale10_def digits_value_def round64_small

lemma toNumber_examples:
  "toNumber (js ''1'') = Num 1" "toNumber (js ''-1'') = Num (- 1)" "toNumber (js ''0'') = Num 0"
  "toNumber (js ''2'') = Num 2" "toNumber (js ''4'') = Num 4"
  "toNumber (js ''16777216'') = Num 16777216" "toNumber (js ''-16777218'') = Num (- 16777218)"
  "toNumber (js ''x'') = NaN"
  by (simp_all add: toNumber_eval)

lemma parsed_lines_sample_text:
  "parsed_lines sample_text = Float32Array [Num 1, Num (- 1), Num 0, Num 0]"
  by (simp add: parsed_lines_closed sample_text_lines toNumber_examples toNumber_empty
      fround_small)

lemma parseTextSample_sample_text:
  "parseTextSample sample_text = Float32Array [Num 1, Num (- 1), Num 0, Num 0, Num 0]"
  by (simp add: parseTextSample_closed sample_text_lines toNumber_examples toNumber_empty
      center_Float32Array mean_Float32Array jssub_def round64_small fround_small)

text \<open>The text \<^verbatim>\<open>"x\n1"\<close> is parsed to a waveform whose first sample is NaN.\<close>

lemma nan_text_lines: "split_on LF nan_text = [js ''x'', js ''1'']"
  by (simp add: nan_text_def js_def LF_def)

lemma parsed_lines_nan_text: "parsed_lines nan_text = nan_wave"
  by (simp add: parsed_lines_closed nan_text_lines nan_wave_def toNumber_examples fround_small)

text \<open>
  The text \<^verbatim>\<open>"16777216\n1\n1\n-16777218"\<close> is parsed to samples of mean 0, which the
  centering leaves as they are.
\<close>

lemma rounding_text_lines:
  "split_on LF rounding_text = [js ''16777216'', js ''1'', js ''1'', js ''-16777218'']"
  by (simp add: rounding_text_def js_def LF_def)

lemma parseTextSample_rounding_text:
  "parseTextSample rounding_text
     = Float32Array [Num 16777216, Num 1, Num 1, Num (- 16777218), Num 0]"
  by (simp add: parseTextSample_closed rounding_text_lines toNumber_examples
      center_Float32Array mean_Float32Array jssub_def round64_small fround_small
      fround_two_to_24)

text \<open>
  C10. In every text input, a blank line (an empty piece of the split, such as the one after
  a final newline) is parsed to 0 and not to NaN, the empty string being converted to 0; and
  an input with a newline appended has the samples of the input without it, followed by one
  more sample of value 0, before centering.
\<close>

theorem blank_line_parses_to_zero:
  "toNumber [] = Num 0
   \<and> (i < length (split_on LF data) \<and> split_on LF data ! i = [] \<longrightarrow>
        get_num (parsed_lines data) i = Num 0 \<and> get_num (parsed_lines data) i \<noteq> NaN)
   \<and> last (split_on LF (data @ [LF])) = []
   \<and> parsed_lines (data @ [LF]) = Float32Array (nums (parsed_lines data) @ [Num 0])
   \<and> len (parsed_lines (data @ [LF])) = len (parsed_lines data) + 1"
proof (intro conjI impI)
  show "toNumber [] = Num 0"
    by (rule toNumber_empty)
  show "get_num (parsed_lines data) i = Num 0"
    if "i < length (split_on LF data) \<and> split_on LF data ! i = []"
    using that
    by (simp add: parsed_lines_closed get_num_def len_def toNumber_empty fround_small)
  then show "get_num (parsed_lines data) i \<noteq> NaN"
    if "i < length (split_on LF data) \<and> split_on LF data ! i = []"
    using that by simp
  show "last (split_on LF (data @ [LF])) = []"
    by (simp add: split_on_snoc)
  show "parsed_lines (data @ [LF]) = Float32Array (nums (parsed_lines data) @ [Num 0])"
    by (simp add: parsed_lines_closed split_on_snoc nums_typed toNumber_empty fround_small)
  then show "len (parsed_lines (data @ [LF])) = len (parsed_lines data) + 1"
    by (simp add: len_def [of "Float32Array _"] len_nums)
qed

theorem blank_line_parses_to_zero_witness:
  "3 < length (split_on LF sample_text) \<and> split_on LF sample_text ! 3 = []
   \<and> get_num (parsed_lines sample_text) 3 = Num 0
   \<and> get_num (parsed_lines sample_text) 3 \<noteq> NaN
   \<and> parsed_lines sample_text = Float32Array [Num 1, Num (- 1), Num 0, Num 0]"
proof -
  have h: "3 < length (split_on LF sample_text) \<and> split_on LF sample_text ! 3 = []"
    by (simp add: sample_text_lines)
  show ?thesis
    using blank_line_parses_to_zero [of 3 sample_text] h parsed_lines_sample_text
    by blast
qed

text \<open>
  C3, as the code has it. For every text input, the output of the parser has one element
  more than the split on the newline has pieces, that is, two more than the input has
  newlines: a sample for each piece (the number the piece converts to, stored as binary32),
  centered, and the reserved last element. The sample \<^verbatim>\<open>"1\n-1\n0\n"\<close> has the four pieces
  \<^verbatim>\<open>"1"\<close>, \<^verbatim>\<open>"-1"\<close>, \<^verbatim>\<open>"0"\<close> and \<^verbatim>\<open>""\<close>, and decodes to the centered samples 1, -1, 0, 0 and
  the reserved element: \<open>[1, -1, 0, 0, 0]\<close>.
\<close>

theorem parseTextSample_length:
  "len (parseTextSample data) = length (split_on LF data) + 1
   \<and> length (split_on LF data) = count_list data LF + 1
   \<and> parseTextSample data = center (parsed_lines data)
   \<and> nums (parsed_lines data) = map (\<lambda>l. fround (toNumber l)) (split_on LF data)
   \<and> parseTextSample sample_text = Float32Array [Num 1, Num (- 1), Num 0, Num 0, Num 0]"
proof (intro conjI)
  show "len (parseTextSample data) = length (split_on LF data) + 1"
    by (simp add: parseTextSample_closed center_Float32Array len_def)
  show "length (split_on LF data) = count_list data LF + 1"
    by (rule length_split_on)
  show "parseTextSample data = center (parsed_lines data)"
    by (simp add: parseTextSample_closed parsed_lines_closed)
  show "nums (parsed_lines data) = map (\<lambda>l. fround (toNumber l)) (split_on LF data)"
    by (simp add: parsed_lines_closed nums_typed)
  show "parseTextSample sample_text = Float32Array [Num 1, Num (- 1), Num 0, Num 0, Num 0]"
    by (rule parseTextSample_sample_text)
qed

text \<open>
  C3 as stated fails on the sample of the specification: the output has 5 elements, the
  input 4 pieces and 3 newlines, and the output is not \<open>[1, -1, 0]\<close> with one more element.
\<close>

theorem parseTextSample_length_counterexample:
  "len (parseTextSample sample_text) \<noteq> length (split_on LF sample_text)
   \<and> len (parseTextSample sample_text) \<noteq> count_list sample_text LF
   \<and> parseTextSample sample_text \<noteq> Float32Array [Num 1, Num (- 1), Num 0, Num 0]"
  by (simp add: parseTextSample_sample_text sample_text_lines len_def)
     (simp add: sample_text_def js_def LF_def)

section \<open>The locator\<close>

lemma folder_loop_find:
  "folder_loop table name d =
     (case find (\<lambda>entry. matches name (snd entry)) table of None \<Rightarrow> d | Some entry \<Rightarrow> fst entry)"
  by (induction table name d rule: folder_loop.induct) auto

lemma folder_loop_first: "folder_loop table name [] = first_matching_folder table name"
  by (simp add: folder_loop_find first_matching_folder_def)

lemma unreserved_not_surrogate:
  "isUnreserved c \<Longrightarrow> \<not> isLeadingSurrogate c \<and> \<not> isTrailingSurrogate c"
  by (auto simp: isUnreserved_def isLeadingSurrogate_def isTrailingSurrogate_def Let_def)

lemma leading_not_trailing: "isLeadingSurrogate c \<Longrightarrow> \<not> isTrailingSurrogate c"
  by (auto simp: isLeadingSurrogate_def isTrailingSurrogate_def)

lemma encodeURIComponent_well_formed:
  "(\<exists>r. encodeURIComponent s = Inr r) \<longleftrightarrow> well_formed s"
proof (induction s rule: encodeURIComponent.induct)
  case 1
  then show ?case by simp
next
  case (2 c)
  then show ?case
    using unreserved_not_surrogate [of c] by auto
next
  case (3 c d ds)
  then show ?case
    using unreserved_not_surrogate [of c] leading_not_trailing [of c]
    by (auto split: sum.splits)
qed

lemma encodeURIComponent_error: "encodeURIComponent s = Inl e \<Longrightarrow> e = URIError"
  by (induction s arbitrary: e rule: encodeURIComponent.induct) (auto split: if_splits sum.splits)

lemma encodeURIComponent_ill_formed: "\<not> well_formed s \<Longrightarrow> encodeURIComponent s = Inl URIError"
  using encodeURIComponent_well_formed [of s] encodeURIComponent_error [of s]
  by (cases "encodeURIComponent s") auto

lemma canonicalize_swap_case: "canonicalize True (unat (swap_case c)) = canonicalize True (unat c)"
proof -
  have up: "unat (c + 0x20) = unat c + 0x20" if "unat c \<le> 0x5A"
    using that by (simp add: unat_plus_if')
  have down: "unat (c - 0x20) = unat c - 0x20" if "0x61 \<le> unat c"
    using that by (simp add: unat_sub_if_size)
  show ?thesis
    by (auto simp: swap_case_def canonicalize_def up down)
qed

lemma matches_swap_case:
  "matches (swap_case c # cs) (AnchoredClass items True) = matches (c # cs) (AnchoredClass items True)"
proof -
  have "item_matches True item (unat (swap_case c)) = item_matches True item (unat c)" for item
    by (cases item) (simp_all add: canonicalize_swap_case)
  then show ?thesis by simp
qed

lemma first_matching_folder_swap_case:
  assumes "list_all (\<lambda>entry. ignoreCase (snd entry)) table"
  shows "first_matching_folder table (swap_case c # cs) = first_matching_folder table (c # cs)"
proof -
  have "matches (swap_case c # cs) (snd entry) = matches (c # cs) (snd entry)"
    if "entry \<in> set table" for entry
  proof (cases "snd entry")
    case (AnchoredClass items flag)
    moreover have "flag"
      using assms that AnchoredClass by (auto simp: list_all_iff)
    ultimately show ?thesis
      using matches_swap_case [of c cs items] by simp
  qed
  then have "find (\<lambda>entry. matches (swap_case c # cs) (snd entry)) table
      = find (\<lambda>entry. matches (c # cs) (snd entry)) table"
    by (intro find_cong) auto
  then show ?thesis
    by (simp add: first_matching_folder_def)
qed


lemma getSampleDefinitionFromName_default:
  assumes "SAMPLE_URL_TABLE cfg name = None" and "encodeURIComponent name = Inr enc"
  shows "getSampleDefinitionFromName cfg name =
     Inr \<lparr> url = DEFAULT_SAMPLE_URL_PREFIX cfg
                   @ first_matching_folder (DEFAULT_FOLDER_MAPPINGS cfg) name @ enc
                   @ DEFAULT_SAMPLE_URL_SUFFIX cfg,
           format = DEFAULT_SAMPLE_FORMAT cfg \<rparr>"
  using assms by (simp add: getSampleDefinitionFromName_def folder_loop_first)

lemma default_table_ignoreCase:
  "list_all (\<lambda>entry. ignoreCase (snd entry)) (DEFAULT_FOLDER_MAPPINGS default_config)"
  by (simp add: default_config_def)

lemma encode_Kick: "encodeURIComponent (js ''Kick 1'') = Inr (js ''Kick%201'')"
  by (simp add: js_def isUnreserved_def isLeadingSurrogate_def isTrailingSurrogate_def
      percent_encode_def utf8_def percent_octet_def hex_digit_def)

lemma folder_Kick:
  "first_matching_folder (DEFAULT_FOLDER_MAPPINGS default_config) (js ''Kick 1'') = js ''IJKL/''"
  by (simp add: first_matching_folder_def default_config_def js_def canonicalize_def)

text \<open>
  C4, as the code has it. For every sample name that has no entry in the override table
  and no unpaired surrogate among its code units, the locator returns the URL
  \<open>prefix + folder + encodeURIComponent(name) + suffix\<close> and the default format, \<open>folder\<close>
  being the folder of the first entry of the folder table whose pattern matches the name
  itself, or the empty string when none does; it does not fail. When every pattern of the
  table has the ignore-case flag, the folder does not depend on the case of the first
  letter of the name. The locator is a function of the configuration and the name.
\<close>

theorem locator_default_url:
  "(SAMPLE_URL_TABLE cfg name = None \<and> well_formed name \<longrightarrow>
      (\<exists>enc. encodeURIComponent name = Inr enc
         \<and> getSampleDefinitionFromName cfg name =
             Inr \<lparr> url = DEFAULT_SAMPLE_URL_PREFIX cfg
                           @ first_matching_folder (DEFAULT_FOLDER_MAPPINGS cfg) name @ enc
                           @ DEFAULT_SAMPLE_URL_SUFFIX cfg,
                   format = DEFAULT_SAMPLE_FORMAT cfg \<rparr>))
   \<and> (list_all (\<lambda>entry. ignoreCase (snd entry)) (DEFAULT_FOLDER_MAPPINGS cfg) \<longrightarrow>
        first_matching_folder (DEFAULT_FOLDER_MAPPINGS cfg) (swap_case c # cs)
          = first_matching_folder (DEFAULT_FOLDER_MAPPINGS cfg) (c # cs))"
proof (intro conjI impI)
  assume a: "SAMPLE_URL_TABLE cfg name = None \<and> well_formed name"
  then obtain enc where e: "encodeURIComponent name = Inr enc"
    using encodeURIComponent_well_formed [of name] by blast
  with a show "\<exists>enc. encodeURIComponent name = Inr enc
         \<and> getSampleDefinitionFromName cfg name =
             Inr \<lparr> url = DEFAULT_SAMPLE_URL_PREFIX cfg
                           @ first_matching_folder (DEFAULT_FOLDER_MAPPINGS cfg) name @ enc
                           @ DEFAULT_SAMPLE_URL_SUFFIX cfg,
                   format = DEFAULT_SAMPLE_FORMAT cfg \<rparr>"
    by (auto simp: getSampleDefinitionFromName_default)
next
  assume "list_all (\<lambda>entry. ignoreCase (snd entry)) (DEFAULT_FOLDER_MAPPINGS cfg)"
  then show "first_matching_folder (DEFAULT_FOLDER_MAPPINGS cfg) (swap_case c # cs)
          = first_matching_folder (DEFAULT_FOLDER_MAPPINGS cfg) (c # cs)"
    by (rule first_matching_folder_swap_case)
qed

theorem locator_default_url_witness:
  "SAMPLE_URL_TABLE default_config (js ''Kick 1'') = None \<and> well_formed (js ''Kick 1'')
   \<and> getSampleDefinitionFromName default_config (js ''Kick 1'') =
       Inr \<lparr> url = js ''https://file.garden/ZMQ0Om5nmTe-x2hq/PandoraArchive%20Samples/IJKL/Kick%201.wav'',
             format = js ''wav'' \<rparr>
   \<and> list_all (\<lambda>entry. ignoreCase (snd entry)) (DEFAULT_FOLDER_MAPPINGS default_config)
   \<and> first_matching_folder (DEFAULT_FOLDER_MAPPINGS default_config) (js ''kick 1'')
       = first_matching_folder (DEFAULT_FOLDER_MAPPINGS default_config) (js ''Kick 1'')"
proof -
  have h1: "SAMPLE_URL_TABLE default_config (js ''Kick 1'') = None \<and> well_formed (js ''Kick 1'')"
    by (simp add: default_config_def js_def isLeadingSurrogate_def isTrailingSurrogate_def)
  have h2: "list_all (\<lambda>entry. ignoreCase (snd entry)) (DEFAULT_FOLDER_MAPPINGS default_config)"
    by (rule default_table_ignoreCase)
  have s: "js ''kick 1'' = swap_case 0x4B # js ''ick 1''" "js ''Kick 1'' = 0x4B # js ''ick 1''"
    by (simp_all add: js_def swap_case_def)
  note t = locator_default_url [of default_config "js ''Kick 1''" "0x4B" "js ''ick 1''"]
  from t h1 obtain enc where e: "encodeURIComponent (js ''Kick 1'') = Inr enc"
    and g: "getSampleDefinitionFromName default_config (js ''Kick 1'') =
      Inr \<lparr> url = DEFAULT_SAMPLE_URL_PREFIX default_config
                    @ first_matching_folder (DEFAULT_FOLDER_MAPPINGS default_config) (js ''Kick 1'')
                    @ enc @ DEFAULT_SAMPLE_URL_SUFFIX default_config,
            format = DEFAULT_SAMPLE_FORMAT default_config \<rparr>"
    by blast
  from e have enc: "enc = js ''Kick%201''"
    by (simp add: encode_Kick)
  have u: "DEFAULT_SAMPLE_URL_PREFIX default_config @ js ''IJKL/'' @ js ''Kick%201''
        @ DEFAULT_SAMPLE_URL_SUFFIX default_config
      = js ''https://file.garden/ZMQ0Om5nmTe-x2hq/PandoraArchive%20Samples/IJKL/Kick%201.wav''"
    and f: "DEFAULT_SAMPLE_FORMAT default_config = js ''wav''"
    by (simp_all add: default_config_def js_def)
  have g': "getSampleDefinitionFromName default_config (js ''Kick 1'') =
       Inr \<lparr> url = js ''https://file.garden/ZMQ0Om5nmTe-x2hq/PandoraArchive%20Samples/IJKL/Kick%201.wav'',
             format = js ''wav'' \<rparr>"
    using g by (simp only: enc folder_Kick u f)
  from t h2 have c: "first_matching_folder (DEFAULT_FOLDER_MAPPINGS default_config) (js ''kick 1'')
       = first_matching_folder (DEFAULT_FOLDER_MAPPINGS default_config) (js ''Kick 1'')"
    by (simp only: s)
  show ?thesis
    using h1 h2 g' c by blast
qed

text \<open>
  C4 as stated fails where it says that the locator never fails: the name made of the one
  code unit \<open>0xD800\<close>, an unpaired surrogate, has no override entry, and
  \<^verbatim>\<open>encodeURIComponent\<close> throws \<^verbatim>\<open>URIError\<close> on it.
\<close>

theorem locator_never_fails_counterexample:
  "SAMPLE_URL_TABLE default_config [0xD800] = None
   \<and> getSampleDefinitionFromName default_config [0xD800] = Inl URIError"
  by (simp add: getSampleDefinitionFromName_def default_config_def isUnreserved_def
      isLeadingSurrogate_def isTrailingSurrogate_def)

text \<open>
  C5. For every sample name that has an entry in the override table, the locator returns
  the URL and the format of the entry as they are, whatever the folder table holds.
\<close>

theorem locator_override:
  assumes "SAMPLE_URL_TABLE cfg name = Some (u, f)"
  shows "getSampleDefinitionFromName (cfg\<lparr> DEFAULT_FOLDER_MAPPINGS := table \<rparr>) name
           = Inr \<lparr> url = u, format = f \<rparr>
    \<and> getSampleDefinitionFromName cfg name = Inr \<lparr> url = u, format = f \<rparr>"
  using assms by (simp add: getSampleDefinitionFromName_def)

theorem locator_override_witness:
  "SAMPLE_URL_TABLE override_config (js ''Hihat'')
     = Some (js ''https://example.com/file.wav'', js ''wav'')
   \<and> getSampleDefinitionFromName (override_config\<lparr> DEFAULT_FOLDER_MAPPINGS := [] \<rparr>) (js ''Hihat'')
       = Inr \<lparr> url = js ''https://example.com/file.wav'', format = js ''wav'' \<rparr>
   \<and> getSampleDefinitionFromName override_config (js ''Hihat'')
       = Inr \<lparr> url = js ''https://example.com/file.wav'', format = js ''wav'' \<rparr>"
proof -
  have h: "SAMPLE_URL_TABLE override_config (js ''Hihat'')
     = Some (js ''https://example.com/file.wav'', js ''wav'')"
    by (simp add: override_config_def)
  show ?thesis
    using locator_override [OF h, of "[]"] h by blast
qed

section \<open>The Web Audio parser\<close>

lemma close_if_open_idem: "close_if_open (close_if_open w) = close_if_open w"
  by (simp add: close_if_open_def)

lemma parseSampleWithWebAudio_world:
  "snd (parseSampleWithWebAudio pf data w) = after_parse w"
  by (auto simp: parseSampleWithWebAudio_def after_parse_def settled_def then_promise_def
      catch_promise_def decoded_handler_def failed_handler_def close_if_open_def Let_def
      split: body.splits sum.splits)

lemma parseSampleWithWebAudio_value:
  "fst (parseSampleWithWebAudio pf data w) =
     (case data of
        Text t \<Rightarrow> Inr Undefined
      | Buffer b \<Rightarrow>
          (case decodeAudioData pf b of
             Inl e \<Rightarrow> Inr Undefined
           | Inr [] \<Rightarrow> Inr Undefined
           | Inr (left # channels) \<Rightarrow> Inr (ArrayVal (center (Float32Array left)))))"
  by (auto simp: parseSampleWithWebAudio_def settled_def then_promise_def catch_promise_def
      decoded_handler_def failed_handler_def getChannelData_def center_def Let_def
      split: body.splits sum.splits list.splits)

text \<open>
  C8. For every call of \<^verbatim>\<open>parseSampleWithWebAudio\<close>, whatever the decoder does with the
  data, one audio context is created and \<^verbatim>\<open>close()\<close> is called exactly once; the guarded
  block that closes the context does nothing when it is run again.
\<close>

theorem audio_context_closed_exactly_once:
  "contextsCreated (snd (parseSampleWithWebAudio pf data w)) = contextsCreated w + 1
   \<and> closeCalls (snd (parseSampleWithWebAudio pf data w)) = closeCalls w + 1
   \<and> closedSampleLoaderAudioContext (snd (parseSampleWithWebAudio pf data w))
   \<and> close_if_open (snd (parseSampleWithWebAudio pf data w)) = snd (parseSampleWithWebAudio pf data w)"
proof -
  let ?w0 = "w\<lparr> contextsCreated := contextsCreated w + 1, closedSampleLoaderAudioContext := False \<rparr>"
  let ?decoding = "case data of Buffer b \<Rightarrow> decodeAudioData pf b | Text t \<Rightarrow> Inl TypeError"
  have once: "close_if_open ?w0 = after_parse w"
    by (simp add: close_if_open_def after_parse_def)
  have "snd (parseSampleWithWebAudio pf data w) = after_parse w"
  proof (cases ?decoding)
    case (Inl e)
    \<comment> \<open>the decoder rejects: only the handler of \<open>catch\<close> runs\<close>
    then show ?thesis
      using once
      by (simp add: parseSampleWithWebAudio_def settled_def then_promise_def catch_promise_def
          failed_handler_def Let_def)
  next
    case (Inr audioBuffer)
    show ?thesis
    proof (cases "getChannelData audioBuffer 0")
      case (Inl e)
      \<comment> \<open>the handler of \<open>then\<close> throws before it closes: the handler of \<open>catch\<close> closes\<close>
      with Inr show ?thesis
        using once
        by (simp add: parseSampleWithWebAudio_def settled_def then_promise_def catch_promise_def
            decoded_handler_def failed_handler_def Let_def)
    next
      case (Inr leftChannelSamples)
      \<comment> \<open>the handler of \<open>then\<close> closes, and the handler of \<open>catch\<close> does not run\<close>
      with \<open>?decoding = Inr audioBuffer\<close> show ?thesis
        using once
        by (simp add: parseSampleWithWebAudio_def settled_def then_promise_def catch_promise_def
            decoded_handler_def Let_def)
    qed
  qed
  then show ?thesis
    by (simp add: after_parse_def close_if_open_def)
qed

section \<open>The load orchestrator\<close>

lemma startLoadingSampleData_chain:
  "getSampleDefinitionFromName cfg name = Inr sd \<Longrightarrow>
   startLoadingSampleData cfg pf name w = Inr (snd (load_chain pf name (url sd) (format sd) w))"
  by (simp add: startLoadingSampleData_def)

text \<open>The parse chain touches neither the targets nor the console.\<close>

lemma parse_chain_world:
  "snd (parse_chain pf name u f w) = w \<or> snd (parse_chain pf name u f w) = after_parse w"
  using parseSampleWithWebAudio_world [of pf _ w]
  by (auto simp: parse_chain_def then_promise_def settled_def response_handler_def rejected_def
      resolved_def parse_handler_def split: sum.splits body.splits prod.splits)

lemma parse_chain_keeps:
  "chipWaveRaw (snd (parse_chain pf name u f w)) = chipWaveRaw w"
  "chipWaveIntegral (snd (parse_chain pf name u f w)) = chipWaveIntegral w"
  "console (snd (parse_chain pf name u f w)) = console w"
  using parse_chain_world [of pf name u f w] by (auto simp: after_parse_def)

lemma load_chain_parsed:
  assumes "parse_chain pf name u f w = (Inr (ArrayVal raw), w')"
  shows "load_chain pf name u f w = write_handler (ArrayVal raw) w'"
  using assms
  by (simp add: load_chain_def then_promise_def catch_promise_def write_handler_def Let_def
      split: option.splits)

lemma load_chain_rejected:
  assumes "parse_chain pf name u f w = (Inl e, w')"
  shows "load_chain pf name u f w = (Inr (), w'\<lparr> console := console w' @ [e] \<rparr>)"
  using assms by (simp add: load_chain_def then_promise_def catch_promise_def error_handler_def)

lemma write_handler_targets:
  "chipWaveRaw (snd (write_handler (ArrayVal raw) w))
     = map_option (\<lambda>t. t\<lparr> samples := ArrayVal raw \<rparr>) (chipWaveRaw w)"
  "chipWaveIntegral (snd (write_handler (ArrayVal raw) w))
     = map_option (\<lambda>t. t\<lparr> samples := ArrayVal (integral raw) \<rparr>) (chipWaveIntegral w)"
  "console (snd (write_handler (ArrayVal raw) w)) = console w"
  by (simp_all add: write_handler_def integral_def Let_def split: option.splits)

text \<open>What the parse chain is fulfilled with on each of the two formats.\<close>

lemma parse_chain_text:
  assumes "fetch pf u = Inr resp" "ok resp" "body_text resp = Inr t"
  shows "parse_chain pf name u (js ''txt'') w = (Inr (ArrayVal (parseTextSample t)), w)"
  using assms
  by (simp add: parse_chain_def then_promise_def settled_def response_handler_def
      parse_handler_def resolved_def)

lemma parse_chain_fulfilled_centered:
  assumes "fst (parse_chain pf name u f w) = Inr (ArrayVal raw)"
  shows "\<exists>samples. raw = center (Float32Array samples)"
proof (cases "f = js ''txt''")
  case True
  with assms show ?thesis
    by (auto simp: parse_chain_def then_promise_def settled_def response_handler_def rejected_def
        resolved_def parse_handler_def parseTextSample_closed
        split: sum.splits body.splits if_splits)
next
  case False
  with assms show ?thesis
    using parseSampleWithWebAudio_value [of pf _ w]
    by (auto simp: parse_chain_def then_promise_def settled_def response_handler_def rejected_def
        parse_handler_def split: sum.splits body.splits if_splits list.splits prod.splits)
qed


lemma encode_a: "encodeURIComponent (js ''a'') = Inr (js ''a'')"
  by (simp add: js_def isUnreserved_def)

lemma locate_a_text:
  "getSampleDefinitionFromName text_config (js ''a'') =
     Inr \<lparr> url = js ''https://file.garden/ZMQ0Om5nmTe-x2hq/PandoraArchive%20Samples/0-9%20and%20A/a.txt'',
           format = js ''txt'' \<rparr>"
proof -
  have "SAMPLE_URL_TABLE text_config (js ''a'') = None"
    by (simp add: text_config_def default_config_def)
  moreover have "first_matching_folder (DEFAULT_FOLDER_MAPPINGS text_config) (js ''a'')
      = js ''0-9%20and%20A/''"
    by (simp add: first_matching_folder_def text_config_def default_config_def js_def
        canonicalize_def)
  ultimately show ?thesis
    by (simp add: getSampleDefinitionFromName_default [OF _ encode_a])
       (simp add: text_config_def default_config_def js_def)
qed

lemma locate_a_wav:
  "getSampleDefinitionFromName default_config (js ''a'') =
     Inr \<lparr> url = js ''https://file.garden/ZMQ0Om5nmTe-x2hq/PandoraArchive%20Samples/0-9%20and%20A/a.wav'',
           format = js ''wav'' \<rparr>"
proof -
  have "SAMPLE_URL_TABLE default_config (js ''a'') = None"
    by (simp add: default_config_def)
  moreover have "first_matching_folder (DEFAULT_FOLDER_MAPPINGS default_config) (js ''a'')
      = js ''0-9%20and%20A/''"
    by (simp add: first_matching_folder_def default_config_def js_def canonicalize_def)
  ultimately show ?thesis
    by (simp add: getSampleDefinitionFromName_default [OF _ encode_a])
       (simp add: default_config_def js_def)
qed

lemma load_text:
  "startLoadingSampleData text_config (serving_text t) (js ''a'') w =
     Inr (snd (write_handler (ArrayVal (parseTextSample t)) w))"
proof -
  have "parse_chain (serving_text t) name u (js ''txt'') w = (Inr (ArrayVal (parseTextSample t)), w)"
    for name u
    by (rule parse_chain_text [where resp = "\<lparr> ok = True, body_text = Inr t, body_arrayBuffer = Inr [] \<rparr>"])
       (simp_all add: serving_text_def)
  then show ?thesis
    by (simp add: startLoadingSampleData_chain [OF locate_a_text] load_chain_parsed)
qed

lemma two_four_lines: "split_on LF two_four_text = [js ''2'', js ''4'']"
  by (simp add: two_four_text_def js_def LF_def)

lemma parseTextSample_two_four:
  "parseTextSample two_four_text = Float32Array [Num (- 1), Num 1, Num 0]"
  by (simp add: parseTextSample_closed two_four_lines toNumber_examples
      center_Float32Array mean_Float32Array jssub_def round64_small fround_small)

text \<open>
  The load of the text \<^verbatim>\<open>"16777216\n1\n1\n-16777218"\<close>: the third element of the integral is
  the sum \<open>16777217\<close> rounded to binary32.
\<close>

lemma load_rounding_text:
  "startLoadingSampleData text_config (serving_text rounding_text) (js ''a'') placeholder_world
     = Inr (placeholder_world
             \<lparr> chipWaveRaw :=
                 Some \<lparr> samples =
                   ArrayVal (Float32Array [Num 16777216, Num 1, Num 1, Num (- 16777218), Num 0]) \<rparr>,
               chipWaveIntegral :=
                 Some \<lparr> samples =
                   ArrayVal (Float32Array
                     [Num 0, Num 16777216, Num 16777216, Num 16777218, Num 0]) \<rparr> \<rparr>)"
proof -
  have w: "write_handler (ArrayVal a) placeholder_world =
      (Inr (), placeholder_world\<lparr> chipWaveRaw := Some \<lparr> samples = ArrayVal a \<rparr>,
                 chipWaveIntegral := Some \<lparr> samples = ArrayVal (integral a) \<rparr> \<rparr>)" for a
    by (simp add: write_handler_def integral_def placeholder_world_def placeholder_def)
  have i: "integral (Float32Array [Num 16777216, Num 1, Num 1, Num (- 16777218), Num 0])
      = Float32Array [Num 0, Num 16777216, Num 16777216, Num 16777218, Num 0]"
    by (simp add: integral_Float32Array exclusive_prefix_sums_def round64_small fround_small
        fround_two_to_24 fround_16777217)
  show ?thesis
    by (simp add: load_text w parseTextSample_rounding_text i)
qed

text \<open>
  C1, as the code has it. For every successful load, that is, whenever the parse chain is
  fulfilled with an array, the integral target receives the exclusive prefix sums of the
  array that the raw target receives, each sum added from the left in binary64 and rounded
  to binary32 when it is stored. The array that the raw target receives holds the
  mean-centered samples with the reserved last element, as the parser returns them. Both
  arrays have the same length.
\<close>

theorem integral_of_centered_wave:
  assumes "getSampleDefinitionFromName cfg name = Inr sd"
    and "fst (parse_chain pf name (url sd) (format sd) w) = Inr (ArrayVal raw)"
    and "chipWaveIntegral w = Some itg"
  shows "\<exists>w'. startLoadingSampleData cfg pf name w = Inr w'
      \<and> chipWaveIntegral w' = Some (itg\<lparr> samples := ArrayVal (integral raw) \<rparr>)
      \<and> chipWaveRaw w' = map_option (\<lambda>t. t\<lparr> samples := ArrayVal raw \<rparr>) (chipWaveRaw w)
      \<and> console w' = console w
      \<and> nums (integral raw) = map fround (exclusive_prefix_sums (nums raw))
      \<and> len (integral raw) = len raw
      \<and> (\<exists>samples. raw = center (Float32Array samples))"
proof -
  obtain w1 where p: "parse_chain pf name (url sd) (format sd) w = (Inr (ArrayVal raw), w1)"
    using assms(2) by (cases "parse_chain pf name (url sd) (format sd) w") auto
  then have w1: "w1 = snd (parse_chain pf name (url sd) (format sd) w)"
    by simp
  let ?w' = "snd (write_handler (ArrayVal raw) w1)"
  have "startLoadingSampleData cfg pf name w = Inr ?w'"
    by (simp add: startLoadingSampleData_chain [OF assms(1)] load_chain_parsed [OF p])
  moreover have "chipWaveIntegral ?w' = Some (itg\<lparr> samples := ArrayVal (integral raw) \<rparr>)"
    by (simp add: write_handler_targets w1 parse_chain_keeps assms(3))
  moreover have "chipWaveRaw ?w' = map_option (\<lambda>t. t\<lparr> samples := ArrayVal raw \<rparr>) (chipWaveRaw w)"
    by (simp add: write_handler_targets w1 parse_chain_keeps)
  moreover have "console ?w' = console w"
    by (simp add: write_handler_targets w1 parse_chain_keeps)
  moreover have c: "\<exists>samples. raw = center (Float32Array samples)"
    using assms(2) by (rule parse_chain_fulfilled_centered)
  moreover have "nums (integral raw) = map fround (exclusive_prefix_sums (nums raw))"
  proof -
    from c have "kind_of raw = KFloat32"
      by (auto simp: kind_of_center)
    then have "stored_as (kind_of raw) = fround"
      by (simp add: fun_eq_iff)
    then show ?thesis
      by (simp only: nums_integral)
  qed
  ultimately show ?thesis
    by (simp add: len_integral)
qed

theorem integral_of_centered_wave_witness:
  "getSampleDefinitionFromName text_config (js ''a'') =
     Inr \<lparr> url = js ''https://file.garden/ZMQ0Om5nmTe-x2hq/PandoraArchive%20Samples/0-9%20and%20A/a.txt'',
           format = js ''txt'' \<rparr>
   \<and> fst (parse_chain (serving_text two_four_text) (js ''a'')
        (js ''https://file.garden/ZMQ0Om5nmTe-x2hq/PandoraArchive%20Samples/0-9%20and%20A/a.txt'')
        (js ''txt'') placeholder_world)
       = Inr (ArrayVal (Float32Array [Num (- 1), Num 1, Num 0]))
   \<and> chipWaveIntegral placeholder_world = Some placeholder
   \<and> (\<exists>w'. startLoadingSampleData text_config (serving_text two_four_text) (js ''a'')
              placeholder_world = Inr w'
          \<and> chipWaveIntegral w' = Some \<lparr> samples = ArrayVal (Float32Array [Num 0, Num (- 1), Num 0]) \<rparr>
          \<and> chipWaveRaw w' = Some \<lparr> samples = ArrayVal (Float32Array [Num (- 1), Num 1, Num 0]) \<rparr>)"
proof -
  let ?u = "js ''https://file.garden/ZMQ0Om5nmTe-x2hq/PandoraArchive%20Samples/0-9%20and%20A/a.txt''"
  let ?sd = "\<lparr> url = ?u, format = js ''txt'' \<rparr>"
  let ?raw = "Float32Array [Num (- 1), Num 1, Num 0]"
  have h2: "fst (parse_chain (serving_text two_four_text) (js ''a'') (url ?sd) (format ?sd)
      placeholder_world) = Inr (ArrayVal ?raw)"
    using parse_chain_text [where pf = "serving_text two_four_text" and t = two_four_text
        and resp = "\<lparr> ok = True, body_text = Inr two_four_text, body_arrayBuffer = Inr [] \<rparr>"]
    by (simp add: serving_text_def parseTextSample_two_four)
  have h3: "chipWaveIntegral placeholder_world = Some placeholder"
    and r: "chipWaveRaw placeholder_world = Some placeholder"
    by (simp_all add: placeholder_world_def)
  have i: "integral ?raw = Float32Array [Num 0, Num (- 1), Num 0]"
    by (simp add: integral_Float32Array exclusive_prefix_sums_def round64_small fround_small)
  from integral_of_centered_wave [OF locate_a_text h2 h3]
  obtain w' where "startLoadingSampleData text_config (serving_text two_four_text) (js ''a'')
        placeholder_world = Inr w'"
    and "chipWaveIntegral w' = Some (placeholder\<lparr> samples := ArrayVal (integral ?raw) \<rparr>)"
    and "chipWaveRaw w' = map_option (\<lambda>t. t\<lparr> samples := ArrayVal ?raw \<rparr>) (chipWaveRaw placeholder_world)"
    by blast
  then have "\<exists>w'. startLoadingSampleData text_config (serving_text two_four_text) (js ''a'')
              placeholder_world = Inr w'
          \<and> chipWaveIntegral w' = Some \<lparr> samples = ArrayVal (Float32Array [Num 0, Num (- 1), Num 0]) \<rparr>
          \<and> chipWaveRaw w' = Some \<lparr> samples = ArrayVal ?raw \<rparr>"
    by (simp add: i r placeholder_def)
  with locate_a_text h2 h3 show ?thesis
    by simp
qed

text \<open>
  C1 as stated fails. The text \<^verbatim>\<open>"2\n4"\<close> decodes to the samples 2 and 4, whose exclusive
  prefix sums are 0 and 2; the load writes \<open>[0, -1, 0]\<close> to the integral target, the prefix
  sums of the centered \<open>[-1, 1, 0]\<close>. For the sample \<^verbatim>\<open>"1\n-1\n0\n"\<close> of the specification
  the load writes \<open>[0, 1, 0, 0, 0]\<close>, not \<open>[0, 1, 0]\<close>.
\<close>

theorem integral_of_raw_samples_counterexample:
  "nums (parsed_lines two_four_text) = [Num 2, Num 4]
   \<and> exclusive_prefix_sums [Num 2, Num 4] = [Num 0, Num 2]
   \<and> Float32Array [Num 0, Num (- 1), Num 0]
       \<noteq> Float32Array (exclusive_prefix_sums (nums (parsed_lines two_four_text)))
   \<and> Float32Array [Num 0, Num 1, Num 0, Num 0, Num 0] \<noteq> Float32Array [Num 0, Num 1, Num 0]
   \<and> startLoadingSampleData text_config (serving_text two_four_text) (js ''a'') placeholder_world
       = Inr (placeholder_world
               \<lparr> chipWaveRaw := Some \<lparr> samples = ArrayVal (Float32Array [Num (- 1), Num 1, Num 0]) \<rparr>,
                 chipWaveIntegral :=
                   Some \<lparr> samples = ArrayVal (Float32Array [Num 0, Num (- 1), Num 0]) \<rparr> \<rparr>)
   \<and> startLoadingSampleData text_config (serving_text sample_text) (js ''a'') placeholder_world
       = Inr (placeholder_world
               \<lparr> chipWaveRaw :=
                   Some \<lparr> samples = ArrayVal (Float32Array [Num 1, Num (- 1), Num 0, Num 0, Num 0]) \<rparr>,
                 chipWaveIntegral :=
                   Some \<lparr> samples = ArrayVal (Float32Array [Num 0, Num 1, Num 0, Num 0, Num 0]) \<rparr> \<rparr>)"
proof (intro conjI)
  show "nums (parsed_lines two_four_text) = [Num 2, Num 4]"
    by (simp add: parsed_lines_closed nums_typed two_four_lines toNumber_examples fround_small)
  show "exclusive_prefix_sums [Num 2, Num 4] = [Num 0, Num 2]"
    by (simp add: exclusive_prefix_sums_def round64_small)
  show "Float32Array [Num 0, Num (- 1), Num 0]
       \<noteq> Float32Array (exclusive_prefix_sums (nums (parsed_lines two_four_text)))"
    by (simp add: parsed_lines_closed nums_typed two_four_lines toNumber_examples
        exclusive_prefix_sums_def round64_small fround_small)
  show "Float32Array [Num 0, Num 1, Num 0, Num 0, Num 0] \<noteq> Float32Array [Num 0, Num 1, Num 0]"
    by simp
  have w: "write_handler (ArrayVal a) placeholder_world =
      (Inr (), placeholder_world\<lparr> chipWaveRaw := Some \<lparr> samples = ArrayVal a \<rparr>,
                 chipWaveIntegral := Some \<lparr> samples = ArrayVal (integral a) \<rparr> \<rparr>)" for a
    by (simp add: write_handler_def integral_def placeholder_world_def placeholder_def)
  show "startLoadingSampleData text_config (serving_text two_four_text) (js ''a'') placeholder_world
       = Inr (placeholder_world
               \<lparr> chipWaveRaw := Some \<lparr> samples = ArrayVal (Float32Array [Num (- 1), Num 1, Num 0]) \<rparr>,
                 chipWaveIntegral :=
                   Some \<lparr> samples = ArrayVal (Float32Array [Num 0, Num (- 1), Num 0]) \<rparr> \<rparr>)"
    by (simp add: load_text w parseTextSample_two_four integral_Float32Array
        exclusive_prefix_sums_def round64_small fround_small)
  show "startLoadingSampleData text_config (serving_text sample_text) (js ''a'') placeholder_world
       = Inr (placeholder_world
               \<lparr> chipWaveRaw :=
                   Some \<lparr> samples = ArrayVal (Float32Array [Num 1, Num (- 1), Num 0, Num 0, Num 0]) \<rparr>,
                 chipWaveIntegral :=
                   Some \<lparr> samples = ArrayVal (Float32Array [Num 0, Num 1, Num 0, Num 0, Num 0]) \<rparr> \<rparr>)"
    by (simp add: load_text w parseTextSample_sample_text integral_Float32Array
        exclusive_prefix_sums_def round64_small fround_small)
qed


text \<open>A load whose fetch fails logs once and leaves the world as it was otherwise.\<close>

lemma load_fetch_failure:
  assumes "fetch pf u = Inl e \<or> (\<exists>resp. fetch pf u = Inr resp \<and> \<not> ok resp)"
  shows "load_chain pf name u f w =
     (Inr (), w\<lparr> console := console w @ [case fetch pf u of Inl e \<Rightarrow> e | Inr _ \<Rightarrow> LoadError name u] \<rparr>)"
  using assms
  by (auto simp: load_chain_def parse_chain_def then_promise_def catch_promise_def settled_def
      response_handler_def rejected_def error_handler_def)

text \<open>
  A load whose decoding fails: the parser's \<^verbatim>\<open>catch\<close> handler turns the rejection into a
  fulfilment with \<^verbatim>\<open>undefined\<close>, which the raw target then receives.
\<close>

lemma load_decode_failure:
  assumes "f \<noteq> js ''txt''" "fetch pf u = Inr resp" "ok resp" "body_arrayBuffer resp = Inr b"
    and "decodeAudioData pf b = Inl e" "chipWaveRaw w = Some target"
  shows "chipWaveRaw (snd (load_chain pf name u f w)) = Some (target\<lparr> samples := Undefined \<rparr>)"
proof -
  have "parse_chain pf name u f w = parseSampleWithWebAudio pf (Buffer b) w"
    using assms(1-4)
    by (simp add: parse_chain_def then_promise_def settled_def response_handler_def
        parse_handler_def)
  then have "parse_chain pf name u f w = (Inr Undefined, after_parse w)"
    using parseSampleWithWebAudio_value [of pf "Buffer b" w]
      parseSampleWithWebAudio_world [of pf "Buffer b" w] assms(5)
    by (simp add: prod_eq_iff)
  then show ?thesis
    using assms(6)
    by (simp add: load_chain_def then_promise_def catch_promise_def write_handler_def
        error_handler_def after_parse_def Let_def split: option.splits)
qed

text \<open>
  C2 at a load whose decoding fails. The sample \<^verbatim>\<open>a\<close> is fetched with success and the
  decoder rejects the bytes. The raw target, which held a placeholder, holds
  \<^verbatim>\<open>undefined\<close> afterwards; the integral target is unchanged and the one log entry is the
  \<^verbatim>\<open>TypeError\<close> of the write stage. Without an integral target nothing is logged at all.
\<close>

theorem decode_failure_overwrites_raw_target:
  "startLoadingSampleData default_config decode_failing (js ''a'') placeholder_world
     = Inr (placeholder_world
             \<lparr> chipWaveRaw := Some \<lparr> samples = Undefined \<rparr>, console := [TypeError],
               contextsCreated := 1, closeCalls := 1, closedSampleLoaderAudioContext := True \<rparr>)
   \<and> startLoadingSampleData default_config decode_failing (js ''a'')
        (placeholder_world\<lparr> chipWaveIntegral := None \<rparr>)
     = Inr (placeholder_world
             \<lparr> chipWaveRaw := Some \<lparr> samples = Undefined \<rparr>, chipWaveIntegral := None,
               contextsCreated := 1, closeCalls := 1, closedSampleLoaderAudioContext := True \<rparr>)"
proof -
  have f: "js ''wav'' \<noteq> js ''txt''"
    by (simp add: js_def)
  have p: "parse_chain decode_failing name u (js ''wav'') w = (Inr Undefined, after_parse w)"
    for name u w
  proof -
    have "parse_chain decode_failing name u (js ''wav'') w
        = parseSampleWithWebAudio decode_failing (Buffer [0x52, 0x49]) w"
      using f
      by (simp add: parse_chain_def then_promise_def settled_def response_handler_def
          parse_handler_def decode_failing_def)
    then show ?thesis
      using parseSampleWithWebAudio_value [of decode_failing "Buffer [0x52, 0x49]" w]
        parseSampleWithWebAudio_world [of decode_failing "Buffer [0x52, 0x49]" w]
      by (simp add: prod_eq_iff decode_failing_def)
  qed
  show ?thesis
    by (simp add: startLoadingSampleData_chain [OF locate_a_wav] load_chain_def p
        then_promise_def catch_promise_def write_handler_def error_handler_def after_parse_def
        placeholder_world_def placeholder_def)
qed

section \<open>The storage shim\<close>

lemma convertToString_id: "convertToString v = v"
  by (simp add: convertToString_def)

lemma getItem_map: "getItem k s = inMemoryData s k"
  by (cases "inMemoryData s k")
     (auto simp: getItem_def getItemInMemory_def convertToString_id Let_def)

lemma setItemAsync_memory: "inMemoryData (snd (setItemAsync k v s)) = inMemoryData s"
  by (simp add: setItemAsync_def split: option.splits sum.splits)

lemma setItemAsync_records:
  "map_option records (database (snd (setItemAsync k v s))) = map_option records (database s)"
  by (simp add: setItemAsync_def split: option.splits sum.splits)

text \<open>
  \<open>getItem\<close> right after \<open>setItem\<close> returns the value, whatever the state of the database,
  also when the transaction cannot be opened; the write to the database is at most a
  pending request, its records are as before.
\<close>

lemma getItem_after_setItem: "getItem k (setItem k v s) = Some v"
  by (simp add: getItem_map setItem_def setItemAsync_memory setItemInMemory_def
      convertToString_id)

lemma setItem_records:
  "map_option records (database (setItem k v s)) = map_option records (database s)"
  by (simp add: setItem_def setItemAsync_records setItemInMemory_def)

lemma setItem_open_storage:
  "map_option requests (database (setItem (js ''k'') (js ''v'') open_storage))
     = Some [Put (js ''k'') (js ''v'')]"
  by (simp add: setItem_def setItemAsync_def setItemInMemory_def open_storage_def
      new_FakeLocalStorage_def transaction_def convertToString_def)

text \<open>Without a database, the calls answer as a map held in memory does.\<close>

lemma run_call_memory_only:
  assumes "database s = None"
  shows "run_call c s =
     (fst (mirror_call c (inMemoryData s)),
      s\<lparr> inMemoryData := snd (mirror_call c (inMemoryData s)) \<rparr>)"
proof (cases c)
  case (GetItem k)
  then show ?thesis by (simp add: getItem_map)
next
  case (SetItem k v)
  then show ?thesis
    using assms
    by (simp add: setItem_def setItemAsync_def setItemInMemory_def convertToString_id)
next
  case (RemoveItem k)
  then show ?thesis
    using assms
    by (simp add: removeItem_def removeItemAsync_def removeItemInMemory_def convertToString_id)
next
  case ClearAll
  then show ?thesis
    using assms by (simp add: clear_def clearAsync_def clearInMemory_def)
qed

lemma run_calls_memory_only:
  "database s = None \<Longrightarrow>
   run_calls calls s =
     (fst (mirror_calls calls (inMemoryData s)),
      s\<lparr> inMemoryData := snd (mirror_calls calls (inMemoryData s)) \<rparr>)"
proof (induction calls arbitrary: s)
  case Nil
  then show ?case by simp
next
  case (Cons c calls)
  let ?s = "s\<lparr> inMemoryData := snd (mirror_call c (inMemoryData s)) \<rparr>"
  have "database ?s = None"
    using Cons.prems by simp
  from Cons.IH [OF this] show ?case
    by (simp add: run_call_memory_only [OF Cons.prems] split: prod.splits)
qed

text \<open>
  When the request of \<^verbatim>\<open>indexedDB.open\<close> fails, the storage is installed as it was
  constructed, without a database, and every sequence of calls made on it is answered from
  memory.
\<close>

lemma open_failed_installs:
  "initializeFakeLocalStorage name OpenFailed cursor
     = (Some (new_FakeLocalStorage name), [CouldNotOpen])"
  by (simp add: initializeFakeLocalStorage_def initialize_def onlyInMemory_def)

lemma open_failed_calls:
  "run_calls calls (new_FakeLocalStorage name)
     = (fst (mirror_calls calls Map.empty),
        (new_FakeLocalStorage name)\<lparr> inMemoryData := snd (mirror_calls calls Map.empty) \<rparr>)"
proof -
  have d: "database (new_FakeLocalStorage name) = None"
    and m: "inMemoryData (new_FakeLocalStorage name) = Map.empty"
    by (simp_all add: new_FakeLocalStorage_def)
  show ?thesis
    using run_calls_memory_only [OF d, of calls] by (simp only: m)
qed

text \<open>
  When \<^verbatim>\<open>indexedDB.open\<close> throws, the promise of \<^verbatim>\<open>_initialize()\<close> is rejected, nothing is
  logged and no storage is installed; and when the database opens without the object store,
  the loading promise is rejected and no storage is installed either.
\<close>

lemma open_throws_installs_nothing:
  "initializeFakeLocalStorage name (OpenThrows e) cursor = (None, [])"
  by (simp add: initializeFakeLocalStorage_def initialize_def onlyInMemory_def)

lemma open_without_store_installs_nothing:
  "js ''fakeLocalStorage'' \<notin> set (objectStoreNames db) \<Longrightarrow>
   initializeFakeLocalStorage name (Opened db False) cursor = (None, [])"
  by (simp add: initializeFakeLocalStorage_def initialize_def onlyInMemory_def
      loadAllPreviouslyStoredData_def transaction_def new_FakeLocalStorage_def)

text \<open>
  C9 at an initialization whose \<^verbatim>\<open>indexedDB.open\<close> throws a \<^verbatim>\<open>SecurityError\<close>. The promise
  of \<^verbatim>\<open>_initialize()\<close> is rejected with the error, the storage being as it was constructed;
  \<^verbatim>\<open>initializeFakeLocalStorage\<close> installs no storage and logs nothing, and its promise is
  never resolved: there is no in-memory mirror for the calls that follow. When the failure
  is reported by the request instead, the storage is installed, and the calls made on it
  are answered from memory.
\<close>

theorem open_throwing_installs_no_storage:
  "initialize (OpenThrows SecurityError) None (new_FakeLocalStorage (js ''beepboxFakeLocalStorage''))
     = (Rejected SecurityError, new_FakeLocalStorage (js ''beepboxFakeLocalStorage''), [])
   \<and> initializeFakeLocalStorage (js ''beepboxFakeLocalStorage'') (OpenThrows SecurityError) None
     = (None, [])
   \<and> initializeFakeLocalStorage (js ''beepboxFakeLocalStorage'') OpenFailed None
     = (Some (new_FakeLocalStorage (js ''beepboxFakeLocalStorage'')), [CouldNotOpen])
   \<and> fst (run_calls
        [SetItem (js ''k'') (js ''v''), GetItem (js ''k''), RemoveItem (js ''k''),
         GetItem (js ''k''), ClearAll]
        (new_FakeLocalStorage (js ''beepboxFakeLocalStorage'')))
       = [None, Some (js ''v''), None, None, None]"
proof (intro conjI)
  show "initialize (OpenThrows SecurityError) None
      (new_FakeLocalStorage (js ''beepboxFakeLocalStorage''))
     = (Rejected SecurityError, new_FakeLocalStorage (js ''beepboxFakeLocalStorage''), [])"
    by (simp add: initialize_def onlyInMemory_def)
  show "initializeFakeLocalStorage (js ''beepboxFakeLocalStorage'') (OpenThrows SecurityError) None
     = (None, [])"
    by (rule open_throws_installs_nothing)
  show "initializeFakeLocalStorage (js ''beepboxFakeLocalStorage'') OpenFailed None
     = (Some (new_FakeLocalStorage (js ''beepboxFakeLocalStorage'')), [CouldNotOpen])"
    by (rule open_failed_installs)
  show "fst (run_calls
        [SetItem (js ''k'') (js ''v''), GetItem (js ''k''), RemoveItem (js ''k''),
         GetItem (js ''k''), ClearAll]
        (new_FakeLocalStorage (js ''beepboxFakeLocalStorage'')))
       = [None, Some (js ''v''), None, None, None]"
    by (simp add: open_failed_calls)
qed

end
